theory Spec2Isabelle
  imports Main "HOL-Library.AList" "HOL-Library.List_Lexorder" "HOL-Library.Char_ord"
begin

section \<open>Handler contract (pkg/handler/types.go)\<close>

text \<open>
  Go's \<open>error\<close> values are modelled structurally: \<open>Err\<close> is an error made from a
  message, \<open>Wrap\<close> is \<open>fmt.Errorf("<prefix>: %w", err)\<close>, and \<open>Errs\<close> is
  \<open>fmt.Errorf("<prefix>: %v", errs)\<close> over a slice of errors. A nil error is \<open>None\<close>.
  A run-time panic is a value of \<open>fault\<close>.
\<close>

datatype error = Err string | Wrap string error | Errs string "error list"

datatype fault = SliceOutOfRange

type_synonym DeviceType = string

definition DeviceTypeNetdev :: DeviceType where "DeviceTypeNetdev = ''netdev''"
definition DeviceTypeRDMA :: DeviceType where "DeviceTypeRDMA = ''rdma''"
definition DeviceTypeCombo :: DeviceType where "DeviceTypeCombo = ''combo''"

text \<open>
  A Go \<open>map[string]string\<close> is a partial function; reading a missing key gives the
  empty string (\<open>mget\<close>).
\<close>

definition mget :: "(string \<rightharpoonup> string) \<Rightarrow> string \<Rightarrow> string" where
  "mget m k = (case m k of None \<Rightarrow> [] | Some v \<Rightarrow> v)"

record AllocationInfo =
  ai_Type :: DeviceType
  ai_Kind :: string
  ai_ClaimUID :: string
  ai_DeviceName :: string
  ai_Metadata :: "string \<rightharpoonup> string"

record NetdevConfig =
  nc_Kind :: string
  nc_InterfaceName :: string
  nc_MTU :: int
  nc_Parent :: string
  nc_Mode :: string
  nc_VFIndex :: int
  nc_HostDevice :: string
  nc_Pkey :: int

record RDMAConfig =
  rc_PreferDevice :: string

record ComboConfig =
  cc_RDMA :: RDMAConfig
  cc_Netdev :: NetdevConfig

record DeviceConfig =
  dc_Type :: DeviceType
  dc_Netdev :: "NetdevConfig option"
  dc_RDMA :: "RDMAConfig option"
  dc_Combo :: "ComboConfig option"

definition GetKind :: "DeviceConfig \<Rightarrow> string" where
  "GetKind c =
     (if dc_Type c = DeviceTypeNetdev then
        (case dc_Netdev c of Some n \<Rightarrow> nc_Kind n | None \<Rightarrow> [])
      else if dc_Type c = DeviceTypeRDMA then ''uverbs''
      else if dc_Type c = DeviceTypeCombo then ''roce''
      else [])"

record DeviceNode =
  dn_Path :: string
  dn_HostPath :: string
  dn_Permissions :: string

record Mount =
  mt_HostPath :: string
  mt_ContainerPath :: string
  mt_Options :: "string list"

record LinuxNetDevice =
  nd_HostInterfaceName :: string
  nd_Name :: string

record ContainerEdits =
  ce_DeviceNodes :: "DeviceNode list"
  ce_Mounts :: "Mount list"
  ce_NetDevices :: "LinuxNetDevice list"
  ce_Env :: "string list"

record PrepareRequest =
  rq_ClaimUID :: string
  rq_Namespace :: string
  rq_ClaimName :: string
  rq_AllocatedDevice :: string
  rq_Config :: DeviceConfig

record PrepareResult =
  pr_PoolName :: string
  pr_DeviceName :: string
  pr_CDIEdits :: ContainerEdits
  pr_Allocation :: AllocationInfo

record UnprepareRequest =
  ur_ClaimUID :: string
  ur_Allocation :: AllocationInfo

text \<open>
  The \<open>DeviceHandler\<close> interface. A handler acts on the node (network links, device
  files, the relocation tracker); that state is the type parameter \<open>'s\<close>, passed in and
  returned by each method. A successful \<open>Prepare\<close> returns a \<open>PrepareResult\<close> with its
  edits and its \<open>AllocationInfo\<close> present, as every handler of the repository does. A
  method returns; the one panic of the repository's handlers, on a short claim UID, is
  treated with the artifact names of the orchestrator.
\<close>

record 's DeviceHandler =
  Type :: DeviceType
  Kinds :: "string list"
  Prepare :: "PrepareRequest \<Rightarrow> 's \<Rightarrow> (error + PrepareResult) \<times> 's"
  Unprepare :: "UnprepareRequest \<Rightarrow> 's \<Rightarrow> error option \<times> 's"
  Validate :: "DeviceConfig \<Rightarrow> 's \<Rightarrow> error option \<times> 's"

section \<open>Handler registry (pkg/handler/registry.go)\<close>

record 's HandlerRegistry =
  handlers :: "DeviceType \<rightharpoonup> (string \<rightharpoonup> 's DeviceHandler)"

definition NewHandlerRegistry :: "'s HandlerRegistry" where
  "NewHandlerRegistry = \<lparr>handlers = Map.empty\<rparr>"

text \<open>
  \<open>store typ h kind\<close> is the loop body \<open>r.handlers[typ][kind] = h\<close> of \<open>Register\<close>. The
  inner map exists when the loop runs (\<open>Register\<close> creates it first), so the \<open>None\<close>
  branch is never taken from \<open>Register\<close>.
\<close>

definition store ::
  "DeviceType \<Rightarrow> 's DeviceHandler \<Rightarrow> string \<Rightarrow> 's HandlerRegistry \<Rightarrow> 's HandlerRegistry" where
  "store typ h kind r =
     (case handlers r typ of
        Some kinds \<Rightarrow> r\<lparr>handlers := (handlers r)(typ \<mapsto> kinds(kind \<mapsto> h))\<rparr>
      | None \<Rightarrow> r)"

definition Register :: "'s HandlerRegistry \<Rightarrow> 's DeviceHandler \<Rightarrow> 's HandlerRegistry" where
  "Register r h =
     (let typ = Type h;
          r1 = (case handlers r typ of
                  None \<Rightarrow> r\<lparr>handlers := (handlers r)(typ \<mapsto> Map.empty)\<rparr>
                | Some _ \<Rightarrow> r)
      in fold (store typ h) (Kinds h) r1)"

definition Get :: "'s HandlerRegistry \<Rightarrow> DeviceType \<Rightarrow> string \<Rightarrow> 's DeviceHandler option" where
  "Get r typ kind = (case handlers r typ of Some kinds \<Rightarrow> kinds kind | None \<Rightarrow> None)"

definition MustGet ::
  "'s HandlerRegistry \<Rightarrow> DeviceType \<Rightarrow> string \<Rightarrow> error + 's DeviceHandler" where
  "MustGet r typ kind =
     (case Get r typ kind of
        None \<Rightarrow> Inl (Err (''no handler registered for type='' @ typ @ '' kind='' @ kind))
      | Some h \<Rightarrow> Inr h)"

text \<open>The registry after a sequence of \<open>Register\<close> calls on a new registry.\<close>

definition registered :: "'s DeviceHandler list \<Rightarrow> 's HandlerRegistry" where
  "registered hs = foldl Register NewHandlerRegistry hs"

text \<open>
  The specification's reading of the registry: the last handler of the sequence that
  declares the pair \<open>(typ, kind)\<close>.
\<close>

definition declares :: "DeviceType \<Rightarrow> string \<Rightarrow> 's DeviceHandler \<Rightarrow> bool" where
  "declares typ kind h \<longleftrightarrow> Type h = typ \<and> kind \<in> set (Kinds h)"

definition last_registered ::
  "'s DeviceHandler list \<Rightarrow> DeviceType \<Rightarrow> string \<Rightarrow> 's DeviceHandler option" where
  "last_registered hs typ kind = List.find (declares typ kind) (rev hs)"

section \<open>Relocation tracker (pkg/nri/tracker.go)\<close>

record PendingMove =
  pm_IBDev :: string
  pm_ClaimUID :: string

record ActiveMove =
  am_IBDev :: string
  am_PodUID :: string
  am_NetnsPath :: string

text \<open>
  The tracker's two maps, both keyed by claim UID. Every method holds the mutex for its
  whole body, so each is one atomic function on the tracker.
\<close>

record RDMANetnsTracker =
  pending :: "string \<rightharpoonup> PendingMove"
  active :: "string \<rightharpoonup> ActiveMove"

definition NewRDMANetnsTracker :: RDMANetnsTracker where
  "NewRDMANetnsTracker = \<lparr>pending = Map.empty, active = Map.empty\<rparr>"

definition AddPending :: "RDMANetnsTracker \<Rightarrow> string \<Rightarrow> string \<Rightarrow> RDMANetnsTracker" where
  "AddPending t claimUID ibDev =
     t\<lparr>pending := (pending t)(claimUID \<mapsto> \<lparr>pm_IBDev = ibDev, pm_ClaimUID = claimUID\<rparr>)\<rparr>"

definition RemovePending :: "RDMANetnsTracker \<Rightarrow> string \<Rightarrow> RDMANetnsTracker" where
  "RemovePending t claimUID = t\<lparr>pending := (pending t)(claimUID := None)\<rparr>"

fun ConsumePendingForClaims ::
  "RDMANetnsTracker \<Rightarrow> string list \<Rightarrow> PendingMove list \<times> RDMANetnsTracker" where
  "ConsumePendingForClaims t [] = ([], t)"
| "ConsumePendingForClaims t (uid # claimUIDs) =
     (case pending t uid of
        Some m \<Rightarrow>
          (let (moves, t') =
                 ConsumePendingForClaims (t\<lparr>pending := (pending t)(uid := None)\<rparr>) claimUIDs
           in (m # moves, t'))
      | None \<Rightarrow> ConsumePendingForClaims t claimUIDs)"

definition MarkActive ::
  "RDMANetnsTracker \<Rightarrow> string \<Rightarrow> string \<Rightarrow> string \<Rightarrow> string \<Rightarrow> RDMANetnsTracker" where
  "MarkActive t claimUID podUID ibDev netnsPath =
     t\<lparr>active := (active t)(claimUID \<mapsto>
        \<lparr>am_IBDev = ibDev, am_PodUID = podUID, am_NetnsPath = netnsPath\<rparr>)\<rparr>"

text \<open>\<open>RemoveActive\<close> returns Go's pair \<open>(m, ok)\<close> as an option.\<close>

definition RemoveActive ::
  "RDMANetnsTracker \<Rightarrow> string \<Rightarrow> ActiveMove option \<times> RDMANetnsTracker" where
  "RemoveActive t claimUID =
     (case active t claimUID of
        Some m \<Rightarrow> (Some m, t\<lparr>active := (active t)(claimUID := None)\<rparr>)
      | None \<Rightarrow> (None, t))"

text \<open>
  \<open>RemoveActiveForPod\<close> ranges over the map \<open>t.active\<close>. Go visits the keys of a map in
  an order it does not specify; the model takes the visiting order as the argument
  \<open>keys\<close>. \<open>visits keys m\<close> says that \<open>keys\<close> is such an order for the map \<open>m\<close>: every
  key of \<open>m\<close>, once. An entry deleted during the loop is the one being visited.
\<close>

definition visits :: "string list \<Rightarrow> (string \<rightharpoonup> 'v) \<Rightarrow> bool" where
  "visits keys m \<longleftrightarrow> distinct keys \<and> set keys = dom m"

fun RemoveActiveForPod ::
  "RDMANetnsTracker \<Rightarrow> string list \<Rightarrow> string \<Rightarrow> ActiveMove list \<times> RDMANetnsTracker" where
  "RemoveActiveForPod t [] podUID = ([], t)"
| "RemoveActiveForPod t (uid # keys) podUID =
     (case active t uid of
        Some m \<Rightarrow>
          if am_PodUID m = podUID then
            (let (moves, t') =
                   RemoveActiveForPod (t\<lparr>active := (active t)(uid := None)\<rparr>) keys podUID
             in (m # moves, t'))
          else RemoveActiveForPod t keys podUID
      | None \<Rightarrow> RemoveActiveForPod t keys podUID)"

section \<open>Sandbox event coordinator (NRI plugin, RunPodSandbox)\<close>

text \<open>
  The netlink and netns libraries are outside the repository; their three calls used by
  \<open>RunPodSandbox\<close> are parameters acting on a kernel state \<open>'k\<close>. Namespace handles and
  RDMA links are numbers. Closing the namespace handle on return changes nothing that
  the tracker or the result depends on and is left out.
\<close>

record 'k Netlink =
  GetFromPath :: "string \<Rightarrow> 'k \<Rightarrow> (error + nat) \<times> 'k"
  RdmaLinkByName :: "string \<Rightarrow> 'k \<Rightarrow> (error + nat) \<times> 'k"
  RdmaLinkSetNsFd :: "nat \<Rightarrow> nat \<Rightarrow> 'k \<Rightarrow> error option \<times> 'k"

text \<open>
  Of the sandbox, \<open>RunPodSandbox\<close> reads the pod UID, the claim UIDs that
  \<open>extractClaimUIDs\<close> finds in its annotations (field \<open>pod_ClaimUIDs\<close>), and its Linux
  namespaces, a list of (type, path), absent when the sandbox has no Linux section.
\<close>

record PodSandbox =
  pod_Uid :: string
  pod_ClaimUIDs :: "string list"
  pod_Linux :: "(string \<times> string) list option"

definition getNetNSPath :: "PodSandbox \<Rightarrow> string" where
  "getNetNSPath pod =
     (case pod_Linux pod of
        None \<Rightarrow> []
      | Some namespaces \<Rightarrow>
          (case List.find (\<lambda>ns. fst ns = ''network'') namespaces of
             Some ns \<Rightarrow> snd ns
           | None \<Rightarrow> []))"

text \<open>The two loops that re-register the drained moves.\<close>

definition reAddPending :: "PendingMove list \<Rightarrow> RDMANetnsTracker \<Rightarrow> RDMANetnsTracker" where
  "reAddPending moves t = fold (\<lambda>m t. AddPending t (pm_ClaimUID m) (pm_IBDev m)) moves t"

text \<open>The loop that moves each drained device into the pod's namespace.\<close>

fun moveAll ::
  "'k Netlink \<Rightarrow> string \<Rightarrow> nat \<Rightarrow> string \<Rightarrow> PendingMove list \<Rightarrow> RDMANetnsTracker \<Rightarrow> 'k
     \<Rightarrow> RDMANetnsTracker \<times> 'k" where
  "moveAll nl podUID podNS netnsPath [] t k = (t, k)"
| "moveAll nl podUID podNS netnsPath (m # moves) t k =
     (case RdmaLinkByName nl (pm_IBDev m) k of
        (Inl err, k1) \<Rightarrow> moveAll nl podUID podNS netnsPath moves t k1
      | (Inr rdmaLink, k1) \<Rightarrow>
          (case RdmaLinkSetNsFd nl rdmaLink podNS k1 of
             (Some err, k2) \<Rightarrow> moveAll nl podUID podNS netnsPath moves t k2
           | (None, k2) \<Rightarrow>
               moveAll nl podUID podNS netnsPath moves
                 (MarkActive t (pm_ClaimUID m) podUID (pm_IBDev m) netnsPath) k2))"

definition RunPodSandbox ::
  "'k Netlink \<Rightarrow> PodSandbox \<Rightarrow> RDMANetnsTracker \<Rightarrow> 'k
     \<Rightarrow> error option \<times> RDMANetnsTracker \<times> 'k" where
  "RunPodSandbox nl pod t k =
     (let podUID = pod_Uid pod;
          claimUIDs = pod_ClaimUIDs pod
      in if claimUIDs = [] then (None, t, k)
         else
           (let (moves, t1) = ConsumePendingForClaims t claimUIDs
            in if moves = [] then (None, t1, k)
               else
                 (let netnsPath = getNetNSPath pod
                  in if netnsPath = [] then (None, reAddPending moves t1, k)
                     else
                       (case GetFromPath nl netnsPath k of
                          (Inl err, k1) \<Rightarrow>
                            (Some (Wrap ''get pod netns'' err), reAddPending moves t1, k1)
                        | (Inr podNS, k1) \<Rightarrow>
                            (let (t2, k2) = moveAll nl podUID podNS netnsPath moves t1 k1
                             in (None, t2, k2))))))"

text \<open>
  The lifecycle of the tracker, one step per method call. Each method takes the mutex
  for its own body only, and the callers make other calls in between
  (\<open>RunPodSandbox\<close> drains, talks to the kernel, then marks), so the calls of the
  driver's goroutines and of the sandbox events interleave method by method. The two
  conditions are those under which the callers make the calls: \<open>UverbsHandler.Prepare\<close>
  and the re-registration of \<open>RunPodSandbox\<close> call \<open>AddPending\<close> for a claim that has no
  active move, and \<open>RunPodSandbox\<close> calls \<open>MarkActive\<close> for a move it has drained, a
  claim that has no pending move unless it was registered again in the meantime. The
  tracker checks neither condition. \<open>GetActiveForPod\<close> and \<open>String\<close> only read.
\<close>

inductive lifecycle_step :: "RDMANetnsTracker \<Rightarrow> RDMANetnsTracker \<Rightarrow> bool" where
  ls_AddPending: "active t c = None \<Longrightarrow> lifecycle_step t (AddPending t c d)"
| ls_RemovePending: "lifecycle_step t (RemovePending t c)"
| ls_ConsumePendingForClaims:
    "lifecycle_step t (snd (ConsumePendingForClaims t claimUIDs))"
| ls_MarkActive: "pending t c = None \<Longrightarrow> lifecycle_step t (MarkActive t c p d n)"
| ls_RemoveActive: "lifecycle_step t (snd (RemoveActive t c))"
| ls_RemoveActiveForPod:
    "visits keys (active t) \<Longrightarrow> lifecycle_step t (snd (RemoveActiveForPod t keys p))"

inductive reachable :: "RDMANetnsTracker \<Rightarrow> bool" where
  reach_new: "reachable NewRDMANetnsTracker"
| reach_step: "reachable t \<Longrightarrow> lifecycle_step t t' \<Longrightarrow> reachable t'"

datatype phase = Unregistered | Pending | Active | PendingAndActive

definition phase_of :: "RDMANetnsTracker \<Rightarrow> string \<Rightarrow> phase" where
  "phase_of t c =
     (case (pending t c, active t c) of
        (None, None) \<Rightarrow> Unregistered
      | (Some _, None) \<Rightarrow> Pending
      | (None, Some _) \<Rightarrow> Active
      | (Some _, Some _) \<Rightarrow> PendingAndActive)"

text \<open>
  The transitions the specification allows for one claim, and the transitions that one
  method call can make: the drain takes a claim from pending to unregistered, and
  \<open>MarkActive\<close> takes it from there to active.
\<close>

definition allowed :: "phase \<Rightarrow> phase \<Rightarrow> bool" where
  "allowed p q \<longleftrightarrow>
     (p, q) \<in> {(Unregistered, Pending), (Pending, Active), (Active, Unregistered),
               (Pending, Unregistered)}"

definition allowed_call :: "phase \<Rightarrow> phase \<Rightarrow> bool" where
  "allowed_call p q \<longleftrightarrow>
     (p, q) \<in> {(Unregistered, Pending), (Pending, Unregistered), (Unregistered, Active),
               (Active, Unregistered)}"

text \<open>
  The invariant carried along the lifecycle: no claim is in both maps, and each pending
  move is stored under its own claim UID.
\<close>

definition tracker_inv :: "RDMANetnsTracker \<Rightarrow> bool" where
  "tracker_inv t \<longleftrightarrow>
     (\<forall>c. pending t c \<noteq> None \<longrightarrow> active t c = None) \<and>
     (\<forall>c m. pending t c = Some m \<longrightarrow> pm_ClaimUID m = c)"

section \<open>Combo handler (pkg/handler/combo/roce.go)\<close>

definition mergeCDIEdits :: "ContainerEdits \<Rightarrow> ContainerEdits \<Rightarrow> ContainerEdits" where
  "mergeCDIEdits a b =
     \<lparr>ce_DeviceNodes = ce_DeviceNodes a @ ce_DeviceNodes b,
      ce_Mounts = ce_Mounts a @ ce_Mounts b,
      ce_NetDevices = ce_NetDevices a @ ce_NetDevices b,
      ce_Env = ce_Env a @ ce_Env b\<rparr>"

definition RoCEHandler_Validate :: "DeviceConfig \<Rightarrow> 's \<Rightarrow> error option \<times> 's" where
  "RoCEHandler_Validate cfg s =
     (case dc_Combo cfg of
        None \<Rightarrow> (Some (Err ''combo config is required for roce''), s)
      | Some _ \<Rightarrow> (None, s))"

text \<open>
  The values that \<open>Prepare\<close> and \<open>Unprepare\<close> build in local variables have their own
  definitions here: the two sub-requests of \<open>Prepare\<close>, the rollback request, the
  combined \<open>AllocationInfo\<close>, and the two synthetic sub-allocations of \<open>Unprepare\<close>.
  The combined \<open>AllocationInfo\<close> is built by a struct literal that sets \<open>Type\<close>, \<open>Kind\<close>,
  \<open>ClaimUID\<close> and \<open>Metadata\<close>; its \<open>DeviceName\<close> is left at Go's zero value, the empty
  string, as is that of the two synthetic sub-allocations.
\<close>

definition rdmaReq :: "PrepareRequest \<Rightarrow> ComboConfig \<Rightarrow> PrepareRequest" where
  "rdmaReq req cfg =
     \<lparr>rq_ClaimUID = rq_ClaimUID req, rq_Namespace = rq_Namespace req,
      rq_ClaimName = rq_ClaimName req,
      rq_AllocatedDevice = rq_AllocatedDevice req,
      rq_Config = \<lparr>dc_Type = DeviceTypeRDMA, dc_Netdev = None,
                   dc_RDMA = Some (cc_RDMA cfg), dc_Combo = None\<rparr>\<rparr>"

definition netReq :: "PrepareRequest \<Rightarrow> ComboConfig \<Rightarrow> PrepareRequest" where
  "netReq req cfg =
     \<lparr>rq_ClaimUID = rq_ClaimUID req, rq_Namespace = rq_Namespace req,
      rq_ClaimName = rq_ClaimName req,
      rq_AllocatedDevice = [],
      rq_Config = \<lparr>dc_Type = DeviceTypeNetdev, dc_Netdev = Some (cc_Netdev cfg),
                   dc_RDMA = None, dc_Combo = None\<rparr>\<rparr>"

definition rollbackReq :: "PrepareRequest \<Rightarrow> PrepareResult \<Rightarrow> UnprepareRequest" where
  "rollbackReq req rdmaResult =
     \<lparr>ur_ClaimUID = rq_ClaimUID req, ur_Allocation = pr_Allocation rdmaResult\<rparr>"

definition comboAllocation ::
  "PrepareRequest \<Rightarrow> PrepareResult \<Rightarrow> PrepareResult \<Rightarrow> AllocationInfo" where
  "comboAllocation req rdmaResult netResult =
     \<lparr>ai_Type = DeviceTypeCombo, ai_Kind = ''roce'',
      ai_ClaimUID = rq_ClaimUID req,
      ai_DeviceName = [],
      ai_Metadata =
        [''rdma_device'' \<mapsto> pr_DeviceName rdmaResult,
         ''net_interface'' \<mapsto> pr_DeviceName netResult,
         ''rdma_uverbs_device'' \<mapsto>
           mget (ai_Metadata (pr_Allocation rdmaResult)) ''uverbsDevice'',
         ''rdma_ibdev'' \<mapsto> mget (ai_Metadata (pr_Allocation rdmaResult)) ''ibdev'',
         ''net_created'' \<mapsto>
           mget (ai_Metadata (pr_Allocation netResult)) ''createdInterface'',
         ''net_host_end'' \<mapsto> mget (ai_Metadata (pr_Allocation netResult)) ''hostEnd'']\<rparr>"

definition RoCEHandler_Prepare ::
  "'s DeviceHandler \<Rightarrow> 's DeviceHandler \<Rightarrow> PrepareRequest \<Rightarrow> 's
     \<Rightarrow> (error + PrepareResult) \<times> 's" where
  "RoCEHandler_Prepare rdmaHandler netdevHandler req s =
     (case dc_Combo (rq_Config req) of
        None \<Rightarrow> (Inl (Err ''combo config is required for roce''), s)
      | Some cfg \<Rightarrow>
          (case Prepare rdmaHandler (rdmaReq req cfg) s of
             (Inl err, s1) \<Rightarrow> (Inl (Wrap ''rdma prepare failed'' err), s1)
           | (Inr rdmaResult, s1) \<Rightarrow>
               (case Prepare netdevHandler (netReq req cfg) s1 of
                  (Inl err, s2) \<Rightarrow>
                    (let (_, s3) = Unprepare rdmaHandler (rollbackReq req rdmaResult) s2
                     in (Inl (Wrap ''netdev prepare failed'' err), s3))
                | (Inr netResult, s2) \<Rightarrow>
                    (Inr \<lparr>pr_PoolName = pr_PoolName rdmaResult,
                          pr_DeviceName = pr_DeviceName rdmaResult,
                          pr_CDIEdits =
                            mergeCDIEdits (pr_CDIEdits rdmaResult) (pr_CDIEdits netResult),
                          pr_Allocation = comboAllocation req rdmaResult netResult\<rparr>,
                     s2))))"

definition netAlloc :: "UnprepareRequest \<Rightarrow> AllocationInfo" where
  "netAlloc req =
     \<lparr>ai_Type = DeviceTypeNetdev, ai_Kind = ''dummy'',
      ai_ClaimUID = ur_ClaimUID req, ai_DeviceName = [],
      ai_Metadata =
        [''createdInterface'' \<mapsto> mget (ai_Metadata (ur_Allocation req)) ''net_created'',
         ''hostEnd'' \<mapsto> mget (ai_Metadata (ur_Allocation req)) ''net_host_end'']\<rparr>"

definition rdmaAlloc :: "UnprepareRequest \<Rightarrow> AllocationInfo" where
  "rdmaAlloc req =
     \<lparr>ai_Type = DeviceTypeRDMA, ai_Kind = ''uverbs'',
      ai_ClaimUID = ur_ClaimUID req, ai_DeviceName = [],
      ai_Metadata =
        [''uverbsDevice'' \<mapsto> mget (ai_Metadata (ur_Allocation req)) ''rdma_uverbs_device'',
         ''ibdev'' \<mapsto> mget (ai_Metadata (ur_Allocation req)) ''rdma_ibdev'']\<rparr>"

text \<open>
  \<open>Unprepare\<close> appends each failure to the slice \<open>errs\<close>; \<open>collect\<close> is that slice for
  the two outcomes, in call order.
\<close>

definition collect :: "error option \<Rightarrow> error option \<Rightarrow> error list" where
  "collect netErr rdmaErr =
     (case netErr of Some err \<Rightarrow> [Wrap ''netdev unprepare'' err] | None \<Rightarrow> []) @
     (case rdmaErr of Some err \<Rightarrow> [Wrap ''rdma unprepare'' err] | None \<Rightarrow> [])"

definition RoCEHandler_Unprepare ::
  "'s DeviceHandler \<Rightarrow> 's DeviceHandler \<Rightarrow> UnprepareRequest \<Rightarrow> 's \<Rightarrow> error option \<times> 's" where
  "RoCEHandler_Unprepare rdmaHandler netdevHandler req s =
     (let (netErr, s1) =
            Unprepare netdevHandler
              \<lparr>ur_ClaimUID = ur_ClaimUID req, ur_Allocation = netAlloc req\<rparr> s;
          (rdmaErr, s2) =
            Unprepare rdmaHandler
              \<lparr>ur_ClaimUID = ur_ClaimUID req, ur_Allocation = rdmaAlloc req\<rparr> s1;
          errs = collect netErr rdmaErr
      in if errs \<noteq> [] then (Some (Errs ''roce unprepare errors'' errs), s2)
         else (None, s2))"

definition NewRoCEHandler :: "'s DeviceHandler \<Rightarrow> 's DeviceHandler \<Rightarrow> 's DeviceHandler" where
  "NewRoCEHandler rdmaHandler netdevHandler =
     \<lparr>Type = DeviceTypeCombo, Kinds = [''roce''],
      Prepare = RoCEHandler_Prepare rdmaHandler netdevHandler,
      Unprepare = RoCEHandler_Unprepare rdmaHandler netdevHandler,
      Validate = RoCEHandler_Validate\<rparr>"

section \<open>Allocate/release orchestrator (pkg/driver/driver.go)\<close>

definition cdiDir :: string where "cdiDir = ''/etc/cdi''"
definition cdiVersion :: string where "cdiVersion = ''1.1.0''"

record 's Driver =
  driverName :: string
  registry :: "'s HandlerRegistry"
  allocations :: "string \<rightharpoonup> AllocationInfo"

definition New :: "string \<Rightarrow> 's HandlerRegistry \<Rightarrow> 's Driver" where
  "New name reg = \<lparr>driverName = name, registry = reg, allocations = Map.empty\<rparr>"

subsection \<open>The framework's types\<close>

text \<open>
  Of a \<open>ResourceClaim\<close> the driver reads the UID, namespace and name, the device
  configurations (each with its \<open>Opaque\<close> pointer, possibly nil) and the allocation
  results (\<open>Status.Allocation\<close>, possibly nil). The opaque parameters are raw JSON; the
  field \<open>oq_Parameters\<close> holds what \<open>json.Unmarshal\<close> makes of them, an error or a
  \<open>DeviceConfig\<close>.
\<close>

record OpaqueDeviceConfiguration =
  oq_Driver :: string
  oq_Parameters :: "error + DeviceConfig"

record DeviceRequestAllocationResult =
  da_Request :: string
  da_Driver :: string
  da_Pool :: string
  da_Device :: string

record ResourceClaim =
  cl_UID :: string
  cl_Namespace :: string
  cl_Name :: string
  cl_Config :: "OpaqueDeviceConfiguration option list"
  cl_Allocation :: "DeviceRequestAllocationResult list option"

record NamespacedObject =
  no_UID :: string
  no_Namespace :: string
  no_Name :: string

record Device =
  dv_PoolName :: string
  dv_DeviceName :: string
  dv_CDIDeviceIDs :: "string list"

record kp_PrepareResult =
  kp_Devices :: "Device list"
  kp_Err :: "error option"

subsection \<open>Durable storage\<close>

text \<open>
  The directory of CDI artifacts is a list of (path, content) with each path once. A
  file written by the driver holds a marshalled CDI spec or a marshalled
  \<open>AllocationInfo\<close>; \<open>Malformed\<close> is any content that \<open>json.Unmarshal\<close> rejects.
  Marshalling the driver's two document types has no failing input, so the error
  branches after \<open>json.MarshalIndent\<close> are not taken and the model has none. Reading a
  marshalled \<open>AllocationInfo\<close> back gives the value written. A CDI spec read as an
  \<open>AllocationInfo\<close> fills only the field \<open>kind\<close>, the one key the two documents share.

  Whether a call of the operating system fails is not decided by the driver: the
  failures are fields of the state, an error or none for each call and path. A failed
  write or removal leaves the directory as it was.
\<close>

record Spec =
  sp_Version :: string
  sp_Kind :: string
  sp_Devices :: "(string \<times> ContainerEdits) list"

datatype content = SpecDoc Spec | AllocDoc AllocationInfo | Malformed

record OS =
  files :: "(string \<times> content) list"
  MkdirAll_fails :: "error option"
  WriteFile_fails :: "string \<Rightarrow> error option"
  Remove_fails :: "string \<Rightarrow> error option"
  ReadFile_fails :: "string \<Rightarrow> error option"
  Glob_fails :: "error option"

definition ErrNotExist :: error where "ErrNotExist = Err ''file does not exist''"

definition os_WriteFile :: "string \<Rightarrow> content \<Rightarrow> OS \<Rightarrow> error option \<times> OS" where
  "os_WriteFile path data os =
     (case WriteFile_fails os path of
        Some err \<Rightarrow> (Some err, os)
      | None \<Rightarrow> (None, os\<lparr>files := AList.update path data (files os)\<rparr>))"

definition os_Remove :: "string \<Rightarrow> OS \<Rightarrow> error option \<times> OS" where
  "os_Remove path os =
     (case Remove_fails os path of
        Some err \<Rightarrow> (Some err, os)
      | None \<Rightarrow>
          (case map_of (files os) path of
             None \<Rightarrow> (Some ErrNotExist, os)
           | Some _ \<Rightarrow> (None, os\<lparr>files := AList.delete path (files os)\<rparr>)))"

definition os_ReadFile :: "string \<Rightarrow> OS \<Rightarrow> error + content" where
  "os_ReadFile path os =
     (case ReadFile_fails os path of
        Some err \<Rightarrow> Inl err
      | None \<Rightarrow>
          (case map_of (files os) path of
             None \<Rightarrow> Inl ErrNotExist
           | Some data \<Rightarrow> Inr data))"

definition json_Unmarshal :: "content \<Rightarrow> error + AllocationInfo" where
  "json_Unmarshal data =
     (case data of
        AllocDoc alloc \<Rightarrow> Inr alloc
      | SpecDoc spec \<Rightarrow>
          Inr \<lparr>ai_Type = [], ai_Kind = sp_Kind spec, ai_ClaimUID = [], ai_DeviceName = [],
               ai_Metadata = Map.empty\<rparr>
      | Malformed \<Rightarrow> Inl (Err ''invalid JSON''))"

text \<open>
  \<open>filepath.Join\<close> of the directory and a file name, for a name without path
  separators. \<open>filepath.Glob\<close> is modelled for the one pattern the driver uses,
  \<open><dir>/<stem>*.alloc.json\<close> with a stem free of pattern characters: it returns, in
  sorted order, the paths in the directory that start with \<open><dir>/<stem>\<close>, end with
  \<open>.alloc.json\<close>, and have no separator in between.
\<close>

definition filepath_Join :: "string \<Rightarrow> string \<Rightarrow> string" where
  "filepath_Join dir name = dir @ ''/'' @ name"

definition glob_match :: "string \<Rightarrow> string \<Rightarrow> string \<Rightarrow> bool" where
  "glob_match pre suf path \<longleftrightarrow>
     length pre + length suf \<le> length path
     \<and> take (length pre) path = pre
     \<and> drop (length path - length suf) path = suf
     \<and> CHR ''/'' \<notin> set (take (length path - length pre - length suf) (drop (length pre) path))"

definition filepath_Glob :: "string \<Rightarrow> string \<Rightarrow> string \<Rightarrow> OS \<Rightarrow> error + string list" where
  "filepath_Glob dir stem suf os =
     (case Glob_fails os of
        Some err \<Rightarrow> Inl err
      | None \<Rightarrow>
          Inr (sort (filter (glob_match (filepath_Join dir stem) suf) (map fst (files os)))))"

subsection \<open>Artifact names\<close>

definition ReplaceAll_slash :: "string \<Rightarrow> string" where
  "ReplaceAll_slash s = map (\<lambda>c. if c = CHR ''/'' then CHR ''-'' else c) s"

text \<open>
  \<open>first8 s\<close> is Go's slice expression \<open>s[:8]\<close> on a string: the first 8 bytes, and a
  run-time panic when the string has fewer. \<open>cdiFilePrefix\<close> applies it to the claim
  UID, with no check of the length before.
\<close>

definition first8 :: "string \<Rightarrow> fault + string" where
  "first8 s = (if length s < 8 then Inl SliceOutOfRange else Inr (take 8 s))"

definition cdiFilePrefix :: "'s Driver \<Rightarrow> string \<Rightarrow> fault + string" where
  "cdiFilePrefix d claimUID =
     (case first8 claimUID of
        Inl f \<Rightarrow> Inl f
      | Inr uid8 \<Rightarrow> Inr (ReplaceAll_slash (driverName d) @ ''-'' @ uid8))"

text \<open>
  The handlers that create an interface name it after the claim in the same way. The
  name computed by \<open>IpoibHandler.Prepare\<close>, once the configuration has passed the
  checks before it, and the one computed by \<open>DummyHandler.Prepare\<close>:
\<close>

definition IpoibHandler_ifName :: "PrepareRequest \<Rightarrow> fault + string" where
  "IpoibHandler_ifName req =
     (case first8 (rq_ClaimUID req) of Inl f \<Rightarrow> Inl f | Inr uid8 \<Rightarrow> Inr (''ib'' @ uid8))"

definition DummyHandler_ifName :: "PrepareRequest \<Rightarrow> fault + string" where
  "DummyHandler_ifName req =
     (case first8 (rq_ClaimUID req) of Inl f \<Rightarrow> Inl f | Inr uid8 \<Rightarrow> Inr (''dm'' @ uid8))"

subsection \<open>Allocation state persistence\<close>

definition saveAllocation ::
  "'s Driver \<Rightarrow> string \<Rightarrow> AllocationInfo \<Rightarrow> OS \<Rightarrow> fault + (error option \<times> OS)" where
  "saveAllocation d claimUID alloc os =
     (case cdiFilePrefix d claimUID of
        Inl f \<Rightarrow> Inl f
      | Inr prefix \<Rightarrow>
          (let path = filepath_Join cdiDir (prefix @ ''.alloc.json'')
           in case os_WriteFile path (AllocDoc alloc) os of
                (Some err, os1) \<Rightarrow> Inr (Some (Wrap ''write allocation state'' err), os1)
              | (None, os1) \<Rightarrow> Inr (None, os1)))"

definition removeAllocationState :: "'s Driver \<Rightarrow> string \<Rightarrow> OS \<Rightarrow> fault + OS" where
  "removeAllocationState d claimUID os =
     (case cdiFilePrefix d claimUID of
        Inl f \<Rightarrow> Inl f
      | Inr prefix \<Rightarrow>
          (let path = filepath_Join cdiDir (prefix @ ''.alloc.json'')
           in Inr (snd (os_Remove path os))))"

text \<open>The body of the loop of \<open>restoreAllocations\<close>, for one matched path.\<close>

definition restoreOne :: "OS \<Rightarrow> string \<Rightarrow> 's Driver \<Rightarrow> 's Driver" where
  "restoreOne os path d =
     (case os_ReadFile path os of
        Inl err \<Rightarrow> d
      | Inr data \<Rightarrow>
          (case json_Unmarshal data of
             Inl err \<Rightarrow> d
           | Inr alloc \<Rightarrow>
               if ai_ClaimUID alloc = [] then d
               else d\<lparr>allocations := (allocations d)(ai_ClaimUID alloc \<mapsto> alloc)\<rparr>))"

definition restoreAllocations :: "'s Driver \<Rightarrow> OS \<Rightarrow> fault + 's Driver" where
  "restoreAllocations d os =
     (case cdiFilePrefix d ''00000000'' of
        Inl f \<Rightarrow> Inl f
      | Inr prefix \<Rightarrow>
          (let stem = take (length (ReplaceAll_slash (driverName d)) + 1) prefix
           in case filepath_Glob cdiDir stem ''.alloc.json'' os of
                Inl err \<Rightarrow> Inr d
              | Inr matches \<Rightarrow> Inr (fold (restoreOne os) matches d)))"

subsection \<open>CDI spec management\<close>

definition createCDISpec ::
  "'s Driver \<Rightarrow> string \<Rightarrow> PrepareResult \<Rightarrow> OS \<Rightarrow> fault + ((error + string) \<times> OS)" where
  "createCDISpec d claimUID result os =
     (case MkdirAll_fails os of
        Some err \<Rightarrow> Inr (Inl (Wrap ''failed to create CDI directory'' err), os)
      | None \<Rightarrow>
          (let spec = \<lparr>sp_Version = cdiVersion,
                       sp_Kind = driverName d @ ''/'' @ ai_Type (pr_Allocation result),
                       sp_Devices = [(pr_DeviceName result, pr_CDIEdits result)]\<rparr>
           in case cdiFilePrefix d claimUID of
                Inl f \<Rightarrow> Inl f
              | Inr prefix \<Rightarrow>
                  (let cdiFilePath = filepath_Join cdiDir (prefix @ ''.json'')
                   in case os_WriteFile cdiFilePath (SpecDoc spec) os of
                        (Some err, os1) \<Rightarrow> Inr (Inl (Wrap ''failed to write CDI spec'' err), os1)
                      | (None, os1) \<Rightarrow>
                          (case saveAllocation d claimUID (pr_Allocation result) os1 of
                             Inl f \<Rightarrow> Inl f
                           | Inr (_, os2) \<Rightarrow>
                               Inr (Inr (driverName d @ ''/'' @ ai_Type (pr_Allocation result)
                                           @ ''='' @ pr_DeviceName result), os2)))))"

definition deleteCDISpec :: "'s Driver \<Rightarrow> string \<Rightarrow> OS \<Rightarrow> fault + OS" where
  "deleteCDISpec d claimUID os =
     (case cdiFilePrefix d claimUID of
        Inl f \<Rightarrow> Inl f
      | Inr prefix \<Rightarrow>
          (let cdiFilePath = filepath_Join cdiDir (prefix @ ''.json'')
           in removeAllocationState d claimUID (snd (os_Remove cdiFilePath os))))"

subsection \<open>Dispatch\<close>

fun parseConfig_loop :: "string \<Rightarrow> OpaqueDeviceConfiguration option list \<Rightarrow> DeviceConfig option" where
  "parseConfig_loop name [] = None"
| "parseConfig_loop name (cfg # cfgs) =
     (case cfg of
        None \<Rightarrow> parseConfig_loop name cfgs
      | Some opaque \<Rightarrow>
          if oq_Driver opaque \<noteq> name then parseConfig_loop name cfgs
          else (case oq_Parameters opaque of
                  Inl err \<Rightarrow> parseConfig_loop name cfgs
                | Inr parsed \<Rightarrow> Some parsed))"

definition parseConfig :: "'s Driver \<Rightarrow> ResourceClaim option \<Rightarrow> DeviceConfig" where
  "parseConfig d rc =
     (let config =
            \<lparr>dc_Type = DeviceTypeNetdev,
             dc_Netdev = Some \<lparr>nc_Kind = ''dummy'', nc_InterfaceName = ''eth1'', nc_MTU = 0,
                               nc_Parent = [], nc_Mode = [], nc_VFIndex = 0,
                               nc_HostDevice = [], nc_Pkey = 0\<rparr>,
             dc_RDMA = None, dc_Combo = None\<rparr>
      in case rc of
           None \<Rightarrow> config
         | Some claim \<Rightarrow>
             (case parseConfig_loop (driverName d) (cl_Config claim) of
                Some parsed \<Rightarrow> parsed
              | None \<Rightarrow> config))"

definition getAllocatedDevice :: "'s Driver \<Rightarrow> ResourceClaim option \<Rightarrow> string" where
  "getAllocatedDevice d rc =
     (case rc of
        None \<Rightarrow> []
      | Some claim \<Rightarrow>
          (case cl_Allocation claim of
             None \<Rightarrow> []
           | Some results \<Rightarrow>
               (case List.find (\<lambda>result. da_Driver result = driverName d) results of
                  Some result \<Rightarrow> da_Device result
                | None \<Rightarrow> [])))"

text \<open>\<open>claimRequest\<close> is the request that \<open>prepareClaim\<close> hands to the handler.\<close>

definition claimRequest :: "'s Driver \<Rightarrow> ResourceClaim \<Rightarrow> PrepareRequest" where
  "claimRequest d rc =
     \<lparr>rq_ClaimUID = cl_UID rc, rq_Namespace = cl_Namespace rc,
      rq_ClaimName = cl_Name rc,
      rq_AllocatedDevice = getAllocatedDevice d (Some rc),
      rq_Config = parseConfig d (Some rc)\<rparr>"

definition prepareClaim ::
  "'s Driver \<Rightarrow> ResourceClaim \<Rightarrow> 's \<Rightarrow> (error + PrepareResult) \<times> 's" where
  "prepareClaim d rc s =
     (let config = parseConfig d (Some rc);
          kind = GetKind config
      in case MustGet (registry d) (dc_Type config) kind of
           Inl err \<Rightarrow> (Inl err, s)
         | Inr h \<Rightarrow>
             (case Validate h config s of
                (Some err, s1) \<Rightarrow> (Inl (Wrap ''config validation failed'' err), s1)
              | (None, s1) \<Rightarrow> Prepare h (claimRequest d rc) s1))"

definition unprepareAllocation :: "'s Driver \<Rightarrow> AllocationInfo \<Rightarrow> 's \<Rightarrow> error option \<times> 's" where
  "unprepareAllocation d alloc s =
     (case Get (registry d) (ai_Type alloc) (ai_Kind alloc) of
        None \<Rightarrow>
          (Some (Err (''no handler for type='' @ ai_Type alloc @ '' kind='' @ ai_Kind alloc
                      @ '' during unprepare'')), s)
      | Some h \<Rightarrow>
          Unprepare h \<lparr>ur_ClaimUID = ai_ClaimUID alloc, ur_Allocation = alloc\<rparr> s)"

definition prepareResultFromAlloc :: "AllocationInfo \<Rightarrow> string \<Rightarrow> kp_PrepareResult" where
  "prepareResultFromAlloc alloc cdiDeviceID =
     (let poolName = (case ai_Metadata alloc ''poolName'' of Some p \<Rightarrow> p | None \<Rightarrow> ''default'')
      in \<lparr>kp_Devices = [\<lparr>dv_PoolName = poolName, dv_DeviceName = ai_DeviceName alloc,
                          dv_CDIDeviceIDs = [cdiDeviceID]\<rparr>],
          kp_Err = None\<rparr>)"

subsection \<open>The two batch calls\<close>

text \<open>
  The state a batch call works on: the per-claim results built so far, the driver with
  its in-memory allocations, the durable storage, and the handlers' state. \<open>prepareOne\<close>
  and \<open>unprepareOne\<close> are the bodies of the two loops over the claims; a panic ends the
  call.
\<close>

type_synonym ('r, 's) batch = "(string \<rightharpoonup> 'r) \<times> 's Driver \<times> OS \<times> 's"

definition prepareOne ::
  "ResourceClaim \<Rightarrow> (kp_PrepareResult, 's) batch \<Rightarrow> fault + (kp_PrepareResult, 's) batch" where
  "prepareOne rc st =
     (case st of (results, d, os, s) \<Rightarrow>
        (let uid = cl_UID rc
         in case allocations d uid of
              Some existing \<Rightarrow>
                (let cdiDeviceID =
                       driverName d @ ''/'' @ ai_Type existing @ ''='' @ ai_DeviceName existing
                 in Inr (results(uid \<mapsto> prepareResultFromAlloc existing cdiDeviceID), d, os, s))
            | None \<Rightarrow>
                (case prepareClaim d rc s of
                   (Inl err, s1) \<Rightarrow>
                     Inr (results(uid \<mapsto> \<lparr>kp_Devices = [], kp_Err = Some err\<rparr>), d, os, s1)
                 | (Inr result, s1) \<Rightarrow>
                     (case createCDISpec d uid result os of
                        Inl f \<Rightarrow> Inl f
                      | Inr (Inl err, os1) \<Rightarrow>
                          (let (_, s2) = unprepareAllocation d (pr_Allocation result) s1
                           in Inr (results(uid \<mapsto> \<lparr>kp_Devices = [], kp_Err = Some err\<rparr>),
                                   d, os1, s2))
                      | Inr (Inr cdiDeviceID, os1) \<Rightarrow>
                          Inr (results(uid \<mapsto>
                                 \<lparr>kp_Devices = [\<lparr>dv_PoolName = pr_PoolName result,
                                                  dv_DeviceName = pr_DeviceName result,
                                                  dv_CDIDeviceIDs = [cdiDeviceID]\<rparr>],
                                  kp_Err = None\<rparr>),
                               d\<lparr>allocations := (allocations d)(uid \<mapsto> pr_Allocation result)\<rparr>,
                               os1, s1)))))"

fun prepareLoop ::
  "ResourceClaim list \<Rightarrow> (kp_PrepareResult, 's) batch \<Rightarrow> fault + (kp_PrepareResult, 's) batch" where
  "prepareLoop [] st = Inr st"
| "prepareLoop (rc # claims) st =
     (case prepareOne rc st of Inl f \<Rightarrow> Inl f | Inr st' \<Rightarrow> prepareLoop claims st')"

definition PrepareResourceClaims ::
  "'s Driver \<Rightarrow> ResourceClaim list \<Rightarrow> OS \<Rightarrow> 's \<Rightarrow> fault + (kp_PrepareResult, 's) batch" where
  "PrepareResourceClaims d claims os s =
     (case restoreAllocations d os of
        Inl f \<Rightarrow> Inl f
      | Inr d0 \<Rightarrow> prepareLoop claims (Map.empty, d0, os, s))"

definition unprepareOne ::
  "NamespacedObject \<Rightarrow> (error option, 's) batch \<Rightarrow> fault + (error option, 's) batch" where
  "unprepareOne claim st =
     (case st of (results, d, os, s) \<Rightarrow>
        (let uid = no_UID claim
         in case allocations d uid of
              None \<Rightarrow> Inr (results(uid \<mapsto> None), d, os, s)
            | Some alloc \<Rightarrow>
                (case unprepareAllocation d alloc s of
                   (Some err, s1) \<Rightarrow> Inr (results(uid \<mapsto> Some err), d, os, s1)
                 | (None, s1) \<Rightarrow>
                     (case deleteCDISpec d uid os of
                        Inl f \<Rightarrow> Inl f
                      | Inr os1 \<Rightarrow>
                          Inr (results(uid \<mapsto> None),
                               d\<lparr>allocations := (allocations d)(uid := None)\<rparr>, os1, s1)))))"

fun unprepareLoop ::
  "NamespacedObject list \<Rightarrow> (error option, 's) batch \<Rightarrow> fault + (error option, 's) batch" where
  "unprepareLoop [] st = Inr st"
| "unprepareLoop (claim # claims) st =
     (case unprepareOne claim st of Inl f \<Rightarrow> Inl f | Inr st' \<Rightarrow> unprepareLoop claims st')"

definition UnprepareResourceClaims ::
  "'s Driver \<Rightarrow> NamespacedObject list \<Rightarrow> OS \<Rightarrow> 's \<Rightarrow> fault + (error option, 's) batch" where
  "UnprepareResourceClaims d claims os s =
     (case restoreAllocations d os of
        Inl f \<Rightarrow> Inl f
      | Inr d0 \<Rightarrow> unprepareLoop claims (Map.empty, d0, os, s))"

section \<open>Test doubles\<close>

text \<open>
  \<open>fakeHandler\<close> is the mock handler of combo_test.go and of the driver's tests: it
  declares a type and kinds, accepts every configuration, and answers \<open>Prepare\<close> and
  \<open>Unprepare\<close> with fixed outcomes. The tests' call flags are kept by \<open>traced\<close>: it
  wraps any handler and appends each call of a method, under the label \<open>l\<close>, to a log
  carried beside the handler's state, which the handler itself neither reads nor
  writes.
\<close>

definition fakeHandler ::
  "DeviceType \<Rightarrow> string list \<Rightarrow> error + PrepareResult \<Rightarrow> error option \<Rightarrow> 's DeviceHandler" where
  "fakeHandler deviceType kinds prepareOutcome unprepareErr =
     \<lparr>Type = deviceType, Kinds = kinds,
      Prepare = (\<lambda>req s. (prepareOutcome, s)),
      Unprepare = (\<lambda>req s. (unprepareErr, s)),
      Validate = (\<lambda>cfg s. (None, s))\<rparr>"

datatype call =
  ValidateCall DeviceConfig | PrepareCall PrepareRequest | UnprepareCall UnprepareRequest

definition traced :: "string \<Rightarrow> 's DeviceHandler \<Rightarrow> ('s \<times> (string \<times> call) list) DeviceHandler" where
  "traced l h =
     \<lparr>Type = Type h, Kinds = Kinds h,
      Prepare = (\<lambda>req (s, log).
        (let (r, s') = Prepare h req s in (r, (s', log @ [(l, PrepareCall req)])))),
      Unprepare = (\<lambda>req (s, log).
        (let (r, s') = Unprepare h req s in (r, (s', log @ [(l, UnprepareCall req)])))),
      Validate = (\<lambda>cfg (s, log).
        (let (r, s') = Validate h cfg s in (r, (s', log @ [(l, ValidateCall cfg)]))))\<rparr>"

text \<open>
  \<open>fakeNetlink\<close> answers the three library calls with fixed outcomes and leaves the
  kernel state alone.
\<close>

definition fakeNetlink :: "error + nat \<Rightarrow> (string \<Rightarrow> error + nat) \<Rightarrow> error option \<Rightarrow> 'k Netlink" where
  "fakeNetlink ns byName setNs =
     \<lparr>GetFromPath = (\<lambda>path k. (ns, k)),
      RdmaLinkByName = (\<lambda>name k. (byName name, k)),
      RdmaLinkSetNsFd = (\<lambda>link fd k. (setNs, k))\<rparr>"

text \<open>
  The values of the scenarios: a claim that asks for the combo kind \<open>roce\<close>, what
  \<open>UverbsHandler.Prepare\<close> and \<open>DummyHandler.Prepare\<close> return for it on success (device
  \<open>uverbs0\<close> of IB device \<open>mlx5_0\<close>, interface \<open>dm\<close> plus the first 8 characters of the
  claim UID), and a storage directory that is empty and on which no call fails.
\<close>

definition roceConfig :: DeviceConfig where
  "roceConfig =
     \<lparr>dc_Type = DeviceTypeCombo, dc_Netdev = None, dc_RDMA = None,
      dc_Combo = Some \<lparr>cc_RDMA = \<lparr>rc_PreferDevice = ''uverbs0''\<rparr>,
                        cc_Netdev = \<lparr>nc_Kind = ''dummy'', nc_InterfaceName = ''eth1'', nc_MTU = 0,
                                     nc_Parent = [], nc_Mode = [], nc_VFIndex = 0,
                                     nc_HostDevice = [], nc_Pkey = 0\<rparr>\<rparr>\<rparr>"

definition roceClaim :: "string \<Rightarrow> string \<Rightarrow> ResourceClaim" where
  "roceClaim name uid =
     \<lparr>cl_UID = uid, cl_Namespace = ''default'', cl_Name = ''roce-claim'',
      cl_Config = [Some \<lparr>oq_Driver = name, oq_Parameters = Inr roceConfig\<rparr>],
      cl_Allocation = None\<rparr>"

definition uverbsResult :: "string \<Rightarrow> PrepareResult" where
  "uverbsResult uid =
     \<lparr>pr_PoolName = ''default'', pr_DeviceName = ''uverbs0'',
      pr_CDIEdits =
        \<lparr>ce_DeviceNodes = [\<lparr>dn_Path = ''/dev/infiniband/uverbs0'',
                            dn_HostPath = ''/dev/infiniband/uverbs0'',
                            dn_Permissions = ''rw''\<rparr>],
         ce_Mounts = [], ce_NetDevices = [], ce_Env = []\<rparr>,
      pr_Allocation =
        \<lparr>ai_Type = DeviceTypeRDMA, ai_Kind = ''uverbs'', ai_ClaimUID = uid,
         ai_DeviceName = ''uverbs0'',
         ai_Metadata = [''uverbsDevice'' \<mapsto> ''uverbs0'', ''ibdev'' \<mapsto> ''mlx5_0'',
                        ''devPath'' \<mapsto> ''/dev/infiniband/uverbs0'']\<rparr>\<rparr>"

definition dummyResult :: "string \<Rightarrow> PrepareResult" where
  "dummyResult uid =
     \<lparr>pr_PoolName = ''default'', pr_DeviceName = ''dm'' @ take 8 uid,
      pr_CDIEdits =
        \<lparr>ce_DeviceNodes = [], ce_Mounts = [],
         ce_NetDevices = [\<lparr>nd_HostInterfaceName = ''dm'' @ take 8 uid, nd_Name = ''eth1''\<rparr>],
         ce_Env = []\<rparr>,
      pr_Allocation =
        \<lparr>ai_Type = DeviceTypeNetdev, ai_Kind = ''dummy'', ai_ClaimUID = uid,
         ai_DeviceName = ''dm'' @ take 8 uid,
         ai_Metadata = [''createdInterface'' \<mapsto> ''dm'' @ take 8 uid,
                        ''containerName'' \<mapsto> ''eth1'']\<rparr>\<rparr>"

definition emptyOS :: OS where
  "emptyOS =
     \<lparr>files = [], MkdirAll_fails = None, WriteFile_fails = (\<lambda>path. None),
      Remove_fails = (\<lambda>path. None), ReadFile_fails = (\<lambda>path. None), Glob_fails = None\<rparr>"

text \<open>
  \<open>roceDriver\<close> is a driver, freshly started, whose registry holds the combo handler over
  an RDMA handler and a netdev handler that succeed for the claim \<open>uid\<close>, their calls
  recorded.
\<close>

definition roceDriver :: "string \<Rightarrow> string \<Rightarrow> (unit \<times> (string \<times> call) list) Driver" where
  "roceDriver name uid =
     New name
       (registered
          [NewRoCEHandler
             (traced ''rdma''
                (fakeHandler DeviceTypeRDMA [''uverbs''] (Inr (uverbsResult uid)) None))
             (traced ''netdev''
                (fakeHandler DeviceTypeNetdev [''dummy''] (Inr (dummyResult uid)) None))])"

section \<open>Registry: properties\<close>

lemma Get_fold_store:
  "handlers r typ \<noteq> None \<Longrightarrow>
   Get (fold (store typ h) ks r) t k =
     (if t = typ \<and> k \<in> set ks then Some h else Get r t k)"
proof (induction ks arbitrary: r)
  case Nil
  then show ?case by simp
next
  case (Cons a ks)
  from Cons.prems obtain kinds where kinds: "handlers r typ = Some kinds" by auto
  have ex: "handlers (store typ h a r) typ \<noteq> None"
    using kinds by (simp add: store_def)
  have one: "Get (store typ h a r) t k = (if t = typ \<and> k = a then Some h else Get r t k)"
    using kinds by (auto simp: store_def Get_def)
  show ?case
    using Cons.IH [OF ex] one by auto
qed

lemma Get_Register:
  "Get (Register r h) t k = (if declares t k h then Some h else Get r t k)"
proof (cases "handlers r (Type h)")
  case None
  let ?r1 = "r\<lparr>handlers := (handlers r)(Type h \<mapsto> Map.empty)\<rparr>"
  have ex: "handlers ?r1 (Type h) \<noteq> None" by simp
  have old: "Get ?r1 t k = Get r t k"
    using None by (auto simp: Get_def)
  show ?thesis
    using Get_fold_store [OF ex, of h "Kinds h" t k] None old
    by (auto simp: Register_def declares_def Let_def)
next
  case (Some kinds)
  then have ex: "handlers r (Type h) \<noteq> None" by simp
  show ?thesis
    using Get_fold_store [OF ex, of h "Kinds h" t k] Some
    by (auto simp: Register_def declares_def Let_def)
qed

lemma Get_foldl_Register:
  "Get (foldl Register r hs) t k =
     (case List.find (declares t k) (rev hs) of Some h \<Rightarrow> Some h | None \<Rightarrow> Get r t k)"
proof (induction hs rule: rev_induct)
  case Nil
  then show ?case by simp
next
  case (snoc h hs)
  then show ?case by (simp add: Get_Register)
qed

lemma Get_NewHandlerRegistry: "Get NewHandlerRegistry t k = None"
  by (simp add: NewHandlerRegistry_def Get_def)

lemma Get_registered: "Get (registered hs) t k = last_registered hs t k"
  by (simp add: registered_def last_registered_def Get_foldl_Register
      Get_NewHandlerRegistry split: option.splits)

text \<open>
  Claim C9. After any sequence of \<open>Register\<close> calls on a new registry, \<open>Get\<close> returns
  the last handler of the sequence that declares the pair (type, kind); one \<open>Register\<close>
  makes \<open>Get\<close> return the handler for every kind it declares, whatever was stored
  before; for a pair that no handler of the sequence declares, \<open>Get\<close> returns none and
  \<open>MustGet\<close> the not-found error; and \<open>MustGet\<close> returns the handler \<open>Get\<close> returns
  whenever there is one.
\<close>

theorem registry_last_registration_wins:
  "Get (registered hs) typ kind = last_registered hs typ kind
   \<and> (\<forall>k \<in> set (Kinds h). Get (Register r h) (Type h) k = Some h)
   \<and> ((\<forall>h' \<in> set hs. \<not> declares typ kind h') \<longrightarrow>
        Get (registered hs) typ kind = None
        \<and> MustGet (registered hs) typ kind =
            Inl (Err (''no handler registered for type='' @ typ @ '' kind='' @ kind)))
   \<and> (\<forall>h'. Get (registered hs) typ kind = Some h' \<longrightarrow>
        MustGet (registered hs) typ kind = Inr h')"
proof -
  have none: "last_registered hs typ kind = None" if "\<forall>h' \<in> set hs. \<not> declares typ kind h'"
    using that by (simp add: last_registered_def find_None_iff)
  show ?thesis
    using none by (simp add: Get_registered Get_Register declares_def MustGet_def)
qed

theorem registry_last_registration_wins_witness:
  "Get (registered [fakeHandler ''netdev'' [''dummy''] (Inl (Err ''a'')) None,
                    fakeHandler ''netdev'' [''dummy'', ''veth''] (Inl (Err ''b'')) None
                      :: unit DeviceHandler])
     ''netdev'' ''dummy''
     = Some (fakeHandler ''netdev'' [''dummy'', ''veth''] (Inl (Err ''b'')) None)
   \<and> MustGet (registered [fakeHandler ''netdev'' [''dummy''] (Inl (Err ''a'')) None,
                    fakeHandler ''netdev'' [''dummy'', ''veth''] (Inl (Err ''b'')) None
                      :: unit DeviceHandler])
     ''netdev'' ''dummy''
     = Inr (fakeHandler ''netdev'' [''dummy'', ''veth''] (Inl (Err ''b'')) None)
   \<and> Get (registered [fakeHandler ''netdev'' [''dummy''] (Inl (Err ''a'')) None
                      :: unit DeviceHandler])
     ''rdma'' ''uverbs'' = None
   \<and> MustGet (registered [fakeHandler ''netdev'' [''dummy''] (Inl (Err ''a'')) None
                      :: unit DeviceHandler])
     ''rdma'' ''uverbs'' = Inl (Err ''no handler registered for type=rdma kind=uverbs'')"
  using
    registry_last_registration_wins
      [of "[fakeHandler ''netdev'' [''dummy''] (Inl (Err ''a'')) None,
            fakeHandler ''netdev'' [''dummy'', ''veth''] (Inl (Err ''b'')) None
              :: unit DeviceHandler]" "''netdev''" "''dummy''"
           "fakeHandler ''netdev'' [''dummy''] (Inl (Err ''a'')) None" NewHandlerRegistry]
    registry_last_registration_wins
      [of "[fakeHandler ''netdev'' [''dummy''] (Inl (Err ''a'')) None :: unit DeviceHandler]"
          "''rdma''" "''uverbs''"
          "fakeHandler ''netdev'' [''dummy''] (Inl (Err ''a'')) None" NewHandlerRegistry]
  by (auto simp: last_registered_def declares_def fakeHandler_def)


section \<open>Tracker: properties\<close>

lemma Consume_pending:
  "pending (snd (ConsumePendingForClaims t uids)) u = (if u \<in> set uids then None else pending t u)"
  by (induction uids arbitrary: t) (auto simp: case_prod_beta split: option.splits)

lemma Consume_active: "active (snd (ConsumePendingForClaims t uids)) = active t"
  by (induction uids arbitrary: t) (auto simp: case_prod_beta split: option.splits)

lemma Consume_nothing:
  "\<forall>u \<in> set uids. pending t u = None \<Longrightarrow> fst (ConsumePendingForClaims t uids) = []"
  by (induction uids arbitrary: t) (auto simp: case_prod_beta split: option.splits)

lemma Consume_moves:
  "m \<in> set (fst (ConsumePendingForClaims t uids)) \<Longrightarrow> \<exists>u \<in> set uids. pending t u = Some m"
proof (induction uids arbitrary: t)
  case Nil
  then show ?case by simp
next
  case (Cons a uids)
  show ?case
  proof (cases "pending t a")
    case None
    with Cons show ?thesis by auto
  next
    case (Some m')
    let ?t = "t\<lparr>pending := (pending t)(a := None)\<rparr>"
    from Cons.prems Some have "m = m' \<or> m \<in> set (fst (ConsumePendingForClaims ?t uids))"
      by (auto simp: case_prod_beta)
    then show ?thesis
    proof
      assume "m = m'"
      with Some show ?thesis by auto
    next
      assume "m \<in> set (fst (ConsumePendingForClaims ?t uids))"
      from Cons.IH [OF this] obtain u where "u \<in> set uids" "pending ?t u = Some m" by auto
      then show ?thesis by (auto split: if_splits)
    qed
  qed
qed

lemma RemoveForPod_pending: "pending (snd (RemoveActiveForPod t keys p)) = pending t"
  by (induction keys arbitrary: t) (auto simp: case_prod_beta split: option.splits)

lemma RemoveForPod_active:
  "active (snd (RemoveActiveForPod t keys p)) u =
     (if u \<in> set keys \<and> (\<exists>m. active t u = Some m \<and> am_PodUID m = p) then None
      else active t u)"
  by (induction keys arbitrary: t) (auto simp: case_prod_beta split: option.splits)

lemma RemoveForPod_nothing:
  "\<forall>u \<in> set keys. \<forall>m. active t u = Some m \<longrightarrow> am_PodUID m \<noteq> p \<Longrightarrow>
   fst (RemoveActiveForPod t keys p) = []"
  by (induction keys arbitrary: t) (auto simp: case_prod_beta split: option.splits)

lemma RemoveForPod_member:
  "u \<in> set keys \<Longrightarrow> distinct keys \<Longrightarrow> active t u = Some m \<Longrightarrow> am_PodUID m = p \<Longrightarrow>
   m \<in> set (fst (RemoveActiveForPod t keys p))"
proof (induction keys arbitrary: t)
  case Nil
  then show ?case by simp
next
  case (Cons a keys)
  show ?case
  proof (cases "a = u")
    case True
    with Cons.prems show ?thesis by (auto simp: case_prod_beta)
  next
    case False
    with Cons.prems have u: "u \<in> set keys" and d: "distinct keys" by auto
    have 1: "m \<in> set (fst (RemoveActiveForPod t keys p))"
      using Cons.IH [OF u d Cons.prems(3) Cons.prems(4)] .
    have 2: "m \<in> set (fst (RemoveActiveForPod (t\<lparr>active := (active t)(a := None)\<rparr>) keys p))"
      using Cons.IH [OF u d, of "t\<lparr>active := (active t)(a := None)\<rparr>"] False Cons.prems
      by simp
    from 1 2 show ?thesis by (auto simp: case_prod_beta split: option.splits)
  qed
qed

lemma RemoveForPod_only:
  "distinct keys \<Longrightarrow> c \<in> set keys \<Longrightarrow> active t c = Some m \<Longrightarrow> am_PodUID m = p \<Longrightarrow>
   \<forall>u m'. u \<noteq> c \<and> active t u = Some m' \<longrightarrow> am_PodUID m' \<noteq> p \<Longrightarrow>
   fst (RemoveActiveForPod t keys p) = [m]"
proof (induction keys arbitrary: t)
  case Nil
  then show ?case by simp
next
  case (Cons a keys)
  show ?case
  proof (cases "a = c")
    case True
    let ?t = "t\<lparr>active := (active t)(c := None)\<rparr>"
    have "fst (RemoveActiveForPod ?t keys p) = []"
      using Cons.prems by (intro RemoveForPod_nothing) auto
    with True Cons.prems show ?thesis by (auto simp: case_prod_beta)
  next
    case False
    with Cons.prems have "fst (RemoveActiveForPod t keys p) = [m]"
      by (intro Cons.IH) auto
    moreover have "\<forall>m'. active t a = Some m' \<longrightarrow> am_PodUID m' \<noteq> p"
      using False Cons.prems by auto
    ultimately show ?thesis by (auto split: option.splits)
  qed
qed

text \<open>
  Claim C8. After \<open>AddPending t c d\<close>, \<open>ConsumePendingForClaims [c]\<close> returns exactly the
  move of \<open>c\<close> with device \<open>d\<close> and removes it, and a second call returns the empty
  list. After \<open>MarkActive t c p d n\<close>, \<open>RemoveActiveForPod p\<close>, in whatever order it
  visits the map, returns that move (and only it when no other claim is active for
  \<open>p\<close>) and removes it, and a repeated call returns the empty list. Pending moves of
  claim UIDs outside the queried list, active moves of other pods, and the map that a
  call does not drain are left as they were.
\<close>

theorem tracker_drain_semantics:
  "fst (ConsumePendingForClaims (AddPending t c d) [c]) = [\<lparr>pm_IBDev = d, pm_ClaimUID = c\<rparr>]
   \<and> pending (snd (ConsumePendingForClaims (AddPending t c d) [c])) c = None
   \<and> fst (ConsumePendingForClaims (snd (ConsumePendingForClaims (AddPending t c d) [c])) [c]) = []
   \<and> (visits keys (active (MarkActive t c p d n)) \<longrightarrow>
        \<lparr>am_IBDev = d, am_PodUID = p, am_NetnsPath = n\<rparr>
          \<in> set (fst (RemoveActiveForPod (MarkActive t c p d n) keys p))
        \<and> ((\<forall>u m'. u \<noteq> c \<and> active t u = Some m' \<longrightarrow> am_PodUID m' \<noteq> p) \<longrightarrow>
             fst (RemoveActiveForPod (MarkActive t c p d n) keys p)
               = [\<lparr>am_IBDev = d, am_PodUID = p, am_NetnsPath = n\<rparr>])
        \<and> active (snd (RemoveActiveForPod (MarkActive t c p d n) keys p)) c = None
        \<and> (\<forall>keys'. fst (RemoveActiveForPod
                          (snd (RemoveActiveForPod (MarkActive t c p d n) keys p)) keys' p) = []))
   \<and> (u \<notin> set uids \<longrightarrow> pending (snd (ConsumePendingForClaims t uids)) u = pending t u)
   \<and> active (snd (ConsumePendingForClaims t uids)) = active t
   \<and> pending (snd (RemoveActiveForPod t keys p)) = pending t
   \<and> ((\<forall>m'. active t u = Some m' \<longrightarrow> am_PodUID m' \<noteq> p) \<longrightarrow>
        active (snd (RemoveActiveForPod t keys p)) u = active t u)"
proof -
  let ?m = "\<lparr>am_IBDev = d, am_PodUID = p, am_NetnsPath = n\<rparr>"
  let ?t1 = "MarkActive t c p d n"
  have a1: "active ?t1 c = Some ?m" by (simp add: MarkActive_def)
  have consume: "fst (ConsumePendingForClaims (AddPending t c d) [c]) = [\<lparr>pm_IBDev = d, pm_ClaimUID = c\<rparr>]"
    "pending (snd (ConsumePendingForClaims (AddPending t c d) [c])) c = None"
    "fst (ConsumePendingForClaims (snd (ConsumePendingForClaims (AddPending t c d) [c])) [c]) = []"
    by (simp_all add: AddPending_def)
  have again: "fst (RemoveActiveForPod (snd (RemoveActiveForPod ?t1 keys p)) keys' p) = []"
    if v: "visits keys (active ?t1)" for keys'
  proof (rule RemoveForPod_nothing, intro ballI allI impI)
    fix u m assume "active (snd (RemoveActiveForPod ?t1 keys p)) u = Some m"
    then have "active ?t1 u = Some m" "\<not> (u \<in> set keys \<and> am_PodUID m = p)"
      by (auto simp: RemoveForPod_active split: if_splits)
    moreover from this v have "u \<in> set keys" by (auto simp: visits_def)
    ultimately show "am_PodUID m \<noteq> p" by simp
  qed
  have pod: "?m \<in> set (fst (RemoveActiveForPod ?t1 keys p))"
            "active (snd (RemoveActiveForPod ?t1 keys p)) c = None"
    if v: "visits keys (active ?t1)"
  proof -
    from v a1 have c: "c \<in> set keys" "distinct keys" by (auto simp: visits_def)
    show "?m \<in> set (fst (RemoveActiveForPod ?t1 keys p))"
      using RemoveForPod_member [OF c a1] by simp
    show "active (snd (RemoveActiveForPod ?t1 keys p)) c = None"
      using c a1 by (simp add: RemoveForPod_active)
  qed
  have only: "fst (RemoveActiveForPod ?t1 keys p) = [?m]"
    if v: "visits keys (active ?t1)"
      and o: "\<forall>u m'. u \<noteq> c \<and> active t u = Some m' \<longrightarrow> am_PodUID m' \<noteq> p"
  proof -
    from v a1 have c: "distinct keys" "c \<in> set keys" by (auto simp: visits_def)
    have "\<forall>u m'. u \<noteq> c \<and> active ?t1 u = Some m' \<longrightarrow> am_PodUID m' \<noteq> p"
      using o by (simp add: MarkActive_def)
    from RemoveForPod_only [OF c a1 _ this] show ?thesis by simp
  qed
  have rest:
    "u \<notin> set uids \<longrightarrow> pending (snd (ConsumePendingForClaims t uids)) u = pending t u"
    "active (snd (ConsumePendingForClaims t uids)) = active t"
    "pending (snd (RemoveActiveForPod t keys p)) = pending t"
    "(\<forall>m'. active t u = Some m' \<longrightarrow> am_PodUID m' \<noteq> p) \<longrightarrow>
        active (snd (RemoveActiveForPod t keys p)) u = active t u"
    by (auto simp: Consume_pending Consume_active RemoveForPod_pending RemoveForPod_active)
  show ?thesis
    using consume again pod only rest by blast
qed


theorem tracker_drain_semantics_witness:
  "visits [''claim-1''] (active (MarkActive NewRDMANetnsTracker ''claim-1'' ''pod-1'' ''mlx5_0'' ''/proc/123/ns/net''))
   \<and> fst (ConsumePendingForClaims (AddPending NewRDMANetnsTracker ''claim-1'' ''mlx5_0'') [''claim-1''])
       = [\<lparr>pm_IBDev = ''mlx5_0'', pm_ClaimUID = ''claim-1''\<rparr>]
   \<and> fst (RemoveActiveForPod
            (MarkActive NewRDMANetnsTracker ''claim-1'' ''pod-1'' ''mlx5_0'' ''/proc/123/ns/net'')
            [''claim-1''] ''pod-1'')
       = [\<lparr>am_IBDev = ''mlx5_0'', am_PodUID = ''pod-1'', am_NetnsPath = ''/proc/123/ns/net''\<rparr>]
   \<and> fst (RemoveActiveForPod
            (snd (RemoveActiveForPod
               (MarkActive NewRDMANetnsTracker ''claim-1'' ''pod-1'' ''mlx5_0'' ''/proc/123/ns/net'')
               [''claim-1''] ''pod-1''))
            [] ''pod-1'') = []
   \<and> pending (snd (ConsumePendingForClaims
         (AddPending NewRDMANetnsTracker ''claim-2'' ''mlx5_1'') [''claim-1''])) ''claim-2''
       = pending (AddPending NewRDMANetnsTracker ''claim-2'' ''mlx5_1'') ''claim-2''"
proof -
  have v: "visits [''claim-1'']
     (active (MarkActive NewRDMANetnsTracker ''claim-1'' ''pod-1'' ''mlx5_0'' ''/proc/123/ns/net''))"
    by (simp add: visits_def MarkActive_def NewRDMANetnsTracker_def)
  have o: "\<forall>u m'. u \<noteq> ''claim-1'' \<and> active NewRDMANetnsTracker u = Some m' \<longrightarrow>
     am_PodUID m' \<noteq> ''pod-1''"
    by (simp add: NewRDMANetnsTracker_def)
  have n: "''claim-2'' \<notin> set [''claim-1'']" by simp
  show ?thesis
    using v o
      tracker_drain_semantics [of NewRDMANetnsTracker "''claim-1''" "''mlx5_0''" "[''claim-1'']"
        "''pod-1''" "''/proc/123/ns/net''" "''claim-2''" "[''claim-1'']"]
      tracker_drain_semantics [of "AddPending NewRDMANetnsTracker ''claim-2'' ''mlx5_1''"
        "''claim-1''" "''mlx5_0''" "[''claim-1'']"
        "''pod-1''" "''/proc/123/ns/net''" "''claim-2''" "[''claim-1'']", THEN conjunct2,
        THEN conjunct2, THEN conjunct2, THEN conjunct2, THEN conjunct1, rule_format, OF n]
    by blast
qed


section \<open>Tracker: lifecycle invariant\<close>

lemma reAddPending_active: "active (reAddPending ms t) = active t"
  unfolding reAddPending_def by (induction ms arbitrary: t) (auto simp: AddPending_def)

lemma reAddPending_pending:
  "pending (reAddPending ms t) u \<noteq> pending t u \<Longrightarrow>
   u \<in> pm_ClaimUID ` set ms \<and>
   (\<exists>m. pending (reAddPending ms t) u = Some m \<and> pm_ClaimUID m = u)"
  unfolding reAddPending_def
proof (induction ms arbitrary: t)
  case Nil
  then show ?case by simp
next
  case (Cons a ms)
  let ?t = "AddPending t (pm_ClaimUID a) (pm_IBDev a)"
  show ?case
  proof (cases "pending (fold (\<lambda>m t. AddPending t (pm_ClaimUID m) (pm_IBDev m)) ms ?t) u
                  = pending ?t u")
    case True
    with Cons.prems show ?thesis
      by (auto simp: AddPending_def split: if_splits)
  next
    case False
    from Cons.IH [OF False] show ?thesis by auto
  qed
qed

lemma moveAll_pending: "pending (fst (moveAll nl podUID podNS path ms t k)) = pending t"
  by (induction ms arbitrary: t k)
     (auto simp: MarkActive_def split: prod.splits sum.splits option.splits)

lemma moveAll_active:
  "active (fst (moveAll nl podUID podNS path ms t k)) u \<noteq> active t u \<Longrightarrow>
   u \<in> pm_ClaimUID ` set ms \<and> active (fst (moveAll nl podUID podNS path ms t k)) u \<noteq> None"
proof (induction ms arbitrary: t k)
  case Nil
  then show ?case by simp
next
  case (Cons a ms)
  obtain r1 k1 where r1: "RdmaLinkByName nl (pm_IBDev a) k = (r1, k1)" by (cases "RdmaLinkByName nl (pm_IBDev a) k")
  show ?case
  proof (cases r1)
    case (Inl e)
    with r1 Cons.prems have "active (fst (moveAll nl podUID podNS path ms t k1)) u \<noteq> active t u"
      by simp
    from Cons.IH [OF this] Inl r1 show ?thesis by simp
  next
    case (Inr link)
    obtain r2 k2 where r2: "RdmaLinkSetNsFd nl link podNS k1 = (r2, k2)"
      by (cases "RdmaLinkSetNsFd nl link podNS k1")
    show ?thesis
    proof (cases r2)
      case (Some e)
      with r1 r2 Inr Cons.prems
      have "active (fst (moveAll nl podUID podNS path ms t k2)) u \<noteq> active t u" by simp
      from Cons.IH [OF this] Some Inr r1 r2 show ?thesis by simp
    next
      case None
      let ?t = "MarkActive t (pm_ClaimUID a) podUID (pm_IBDev a) path"
      have eq: "moveAll nl podUID podNS path (a # ms) t k = moveAll nl podUID podNS path ms ?t k2"
        using None Inr r1 r2 by simp
      show ?thesis
      proof (cases "active (fst (moveAll nl podUID podNS path ms ?t k2)) u = active ?t u")
        case True
        with Cons.prems eq show ?thesis
          by (auto simp: MarkActive_def split: if_splits)
      next
        case False
        from Cons.IH [OF False] eq show ?thesis by auto
      qed
    qed
  qed
qed

lemma Run_tracker:
  "fst (snd (RunPodSandbox nl pod t k)) = t
   \<or> fst (snd (RunPodSandbox nl pod t k)) = snd (ConsumePendingForClaims t (pod_ClaimUIDs pod))
   \<or> fst (snd (RunPodSandbox nl pod t k))
       = reAddPending (fst (ConsumePendingForClaims t (pod_ClaimUIDs pod)))
           (snd (ConsumePendingForClaims t (pod_ClaimUIDs pod)))
   \<or> (\<exists>podNS k1. fst (snd (RunPodSandbox nl pod t k))
       = fst (moveAll nl (pod_Uid pod) podNS (getNetNSPath pod)
                  (fst (ConsumePendingForClaims t (pod_ClaimUIDs pod)))
                  (snd (ConsumePendingForClaims t (pod_ClaimUIDs pod))) k1))"
proof (cases "GetFromPath nl (getNetNSPath pod) k")
  case (Pair r k1)
  then show ?thesis
    by (cases r) (auto simp: RunPodSandbox_def Let_def case_prod_beta)
qed

lemma Run_phase:
  assumes i: "tracker_inv t"
  shows "tracker_inv (fst (snd (RunPodSandbox nl pod t k))) \<and>
         (phase_of (fst (snd (RunPodSandbox nl pod t k))) c = phase_of t c
          \<or> allowed (phase_of t c) (phase_of (fst (snd (RunPodSandbox nl pod t k))) c))"
proof -
  let ?uids = "pod_ClaimUIDs pod"
  let ?ms = "fst (ConsumePendingForClaims t ?uids)"
  let ?t1 = "snd (ConsumePendingForClaims t ?uids)"
  let ?t' = "fst (snd (RunPodSandbox nl pod t k))"
  have ms: "pending t (pm_ClaimUID m) = Some m \<and> pm_ClaimUID m \<in> set ?uids" if "m \<in> set ?ms" for m
    using Consume_moves [OF that] i by (auto simp: tracker_inv_def)
  have p1: "pending ?t1 u = (if u \<in> set ?uids then None else pending t u)" for u
    by (rule Consume_pending)
  have a1: "active ?t1 = active t" by (rule Consume_active)
  have i1: "tracker_inv ?t1" using i p1 a1 by (auto simp: tracker_inv_def split: if_splits)
  have ph1: "phase_of ?t1 c = phase_of t c \<or> allowed (phase_of t c) (phase_of ?t1 c)"
    using i p1 [of c] a1 by (auto simp: phase_of_def allowed_def tracker_inv_def split: option.splits)
  let ?t2 = "reAddPending ?ms ?t1"
  have a2: "active ?t2 = active t" using a1 by (simp add: reAddPending_active)
  have p2: "pending ?t2 u = pending ?t1 u \<or>
            (u \<in> pm_ClaimUID ` set ?ms \<and> (\<exists>m. pending ?t2 u = Some m \<and> pm_ClaimUID m = u))" for u
    using reAddPending_pending [of ?ms ?t1 u] by blast
  have na: "active t u = None" if "u \<in> pm_ClaimUID ` set ?ms" for u
    using that ms i by (auto simp: tracker_inv_def)
  have i2: "tracker_inv ?t2"
    unfolding tracker_inv_def
  proof (intro conjI allI impI)
    fix u assume "pending ?t2 u \<noteq> None"
    with p2 [of u] i1 a1 na show "active ?t2 u = None"
      unfolding a2 by (auto simp: tracker_inv_def)
  next
    fix u m assume "pending ?t2 u = Some m"
    with p2 [of u] i1 show "pm_ClaimUID m = u" by (auto simp: tracker_inv_def)
  qed
  have ph2: "phase_of ?t2 c = phase_of t c \<or> allowed (phase_of t c) (phase_of ?t2 c)"
  proof -
    from p2 [of c] show ?thesis
    proof
      assume "pending ?t2 c = pending ?t1 c"
      with ph1 a1 a2 show ?thesis by (simp add: phase_of_def)
    next
      assume "c \<in> pm_ClaimUID ` set ?ms \<and> (\<exists>m. pending ?t2 c = Some m \<and> pm_ClaimUID m = c)"
      then obtain m where "m \<in> set ?ms" "pm_ClaimUID m = c" "pending ?t2 c \<noteq> None" by auto
      with ms [of m] na [of c] a2 show ?thesis
        by (auto simp: phase_of_def split: option.splits)
    qed
  qed
  have mv: "tracker_inv (fst (moveAll nl podUID podNS path ?ms ?t1 k1)) \<and>
      (phase_of (fst (moveAll nl podUID podNS path ?ms ?t1 k1)) c = phase_of t c \<or>
       allowed (phase_of t c) (phase_of (fst (moveAll nl podUID podNS path ?ms ?t1 k1)) c))"
    for podUID podNS path k1
  proof -
    let ?t3 = "fst (moveAll nl podUID podNS path ?ms ?t1 k1)"
    have p3: "pending ?t3 = pending ?t1" by (rule moveAll_pending)
    have a3: "active ?t3 u = active t u \<or> (u \<in> pm_ClaimUID ` set ?ms \<and> active ?t3 u \<noteq> None)" for u
      using moveAll_active [of nl podUID podNS path ?ms ?t1 k1 u] a1 by auto
    have gone: "pending ?t1 u = None" if "u \<in> pm_ClaimUID ` set ?ms" for u
      using that ms p1 [of u] by auto
    have "tracker_inv ?t3"
      unfolding tracker_inv_def
    proof (intro conjI allI impI)
      fix u assume "pending ?t3 u \<noteq> None"
      with a3 [of u] gone [of u] i1 a1 show "active ?t3 u = None"
        unfolding p3 by (auto simp: tracker_inv_def)
    next
      fix u m assume "pending ?t3 u = Some m"
      with i1 show "pm_ClaimUID m = u" unfolding p3 by (auto simp: tracker_inv_def)
    qed
    moreover have "phase_of ?t3 c = phase_of t c \<or> allowed (phase_of t c) (phase_of ?t3 c)"
    proof -
      from a3 [of c] show ?thesis
      proof
        assume "active ?t3 c = active t c"
        with ph1 a1 p3 show ?thesis by (simp add: phase_of_def)
      next
        assume "c \<in> pm_ClaimUID ` set ?ms \<and> active ?t3 c \<noteq> None"
        then obtain m where "m \<in> set ?ms" "pm_ClaimUID m = c" "active ?t3 c \<noteq> None" by auto
        with ms [of m] na [of c] gone [of c] p3 show ?thesis
          by (auto simp: phase_of_def allowed_def split: option.splits)
      qed
    qed
    ultimately show ?thesis by simp
  qed
  from Run_tracker [of nl pod t k] i i1 ph1 i2 ph2 mv show ?thesis
    by (elim disjE exE) simp_all
qed

lemma step_inv_phase:
  assumes s: "lifecycle_step t t'" and i: "tracker_inv t"
  shows "tracker_inv t' \<and>
         (phase_of t' c = phase_of t c \<or> allowed_call (phase_of t c) (phase_of t' c))"
  using s
proof cases
  case (ls_AddPending c' d)
  with i show ?thesis
    by (auto simp: tracker_inv_def AddPending_def phase_of_def allowed_call_def
        split: option.splits)
next
  case (ls_RemovePending c')
  with i show ?thesis
    by (auto simp: tracker_inv_def RemovePending_def phase_of_def allowed_call_def
        split: option.splits)
next
  case (ls_ConsumePendingForClaims uids)
  have p: "pending t' u = (if u \<in> set uids then None else pending t u)" for u
    unfolding ls_ConsumePendingForClaims by (rule Consume_pending)
  have a: "active t' = active t"
    unfolding ls_ConsumePendingForClaims by (rule Consume_active)
  have "tracker_inv t'"
    using i p a by (auto simp: tracker_inv_def split: if_splits)
  moreover have "phase_of t' c = phase_of t c \<or> allowed_call (phase_of t c) (phase_of t' c)"
    using i p [of c] a
    by (auto simp: tracker_inv_def phase_of_def allowed_call_def split: option.splits)
  ultimately show ?thesis by simp
next
  case (ls_MarkActive c' p d n)
  with i show ?thesis
    by (auto simp: tracker_inv_def MarkActive_def phase_of_def allowed_call_def
        split: option.splits)
next
  case (ls_RemoveActive c')
  with i show ?thesis
    by (auto simp: tracker_inv_def RemoveActive_def phase_of_def allowed_call_def
        split: option.splits)
next
  case (ls_RemoveActiveForPod keys p)
  have a: "active t' u = active t u \<or> (active t' u = None \<and> active t u \<noteq> None)" for u
    unfolding ls_RemoveActiveForPod by (auto simp: RemoveForPod_active)
  have p: "pending t' = pending t"
    unfolding ls_RemoveActiveForPod by (rule RemoveForPod_pending)
  have "tracker_inv t'"
    using i a p unfolding tracker_inv_def by metis
  moreover have "phase_of t' c = phase_of t c \<or> allowed_call (phase_of t c) (phase_of t' c)"
    using a [of c] p i
    by (auto simp: tracker_inv_def phase_of_def allowed_call_def split: option.splits)
  ultimately show ?thesis by simp
qed

lemma reachable_inv: "reachable t \<Longrightarrow> tracker_inv t"
proof (induction rule: reachable.induct)
  case reach_new
  show ?case by (simp add: tracker_inv_def NewRDMANetnsTracker_def)
next
  case (reach_step t t')
  with step_inv_phase [of t t'] show ?case by simp
qed

lemma reAddPending_steps:
  "\<forall>m \<in> set ms. active t (pm_ClaimUID m) = None \<Longrightarrow>
   rtranclp lifecycle_step t (reAddPending ms t)"
proof (induction ms arbitrary: t)
  case Nil
  show ?case by (simp add: reAddPending_def)
next
  case (Cons a ms)
  let ?t = "AddPending t (pm_ClaimUID a) (pm_IBDev a)"
  have s: "lifecycle_step t ?t"
    using Cons.prems by (intro ls_AddPending) simp
  have "\<forall>m \<in> set ms. active ?t (pm_ClaimUID m) = None"
    using Cons.prems by (simp add: AddPending_def)
  from Cons.IH [OF this] have "rtranclp lifecycle_step ?t (reAddPending ms ?t)" .
  moreover have "reAddPending (a # ms) t = reAddPending ms ?t"
    by (simp add: reAddPending_def)
  ultimately show ?case using s by (simp add: converse_rtranclp_into_rtranclp)
qed

lemma moveAll_steps:
  "\<forall>m \<in> set ms. pending t (pm_ClaimUID m) = None \<Longrightarrow>
   rtranclp lifecycle_step t (fst (moveAll nl podUID podNS path ms t k))"
proof (induction ms arbitrary: t k)
  case Nil
  show ?case by simp
next
  case (Cons a ms)
  from Cons.prems have rest: "\<forall>m \<in> set ms. pending t (pm_ClaimUID m) = None" by simp
  obtain r1 k1 where r1: "RdmaLinkByName nl (pm_IBDev a) k = (r1, k1)"
    by (cases "RdmaLinkByName nl (pm_IBDev a) k")
  show ?case
  proof (cases r1)
    case (Inl e)
    with r1 Cons.IH [OF rest, of k1] show ?thesis by simp
  next
    case (Inr link)
    obtain r2 k2 where r2: "RdmaLinkSetNsFd nl link podNS k1 = (r2, k2)"
      by (cases "RdmaLinkSetNsFd nl link podNS k1")
    show ?thesis
    proof (cases r2)
      case (Some e)
      with r1 r2 Inr Cons.IH [OF rest, of k2] show ?thesis by simp
    next
      case None
      let ?t = "MarkActive t (pm_ClaimUID a) podUID (pm_IBDev a) path"
      have s: "lifecycle_step t ?t"
        using Cons.prems by (intro ls_MarkActive) simp
      have "\<forall>m \<in> set ms. pending ?t (pm_ClaimUID m) = None"
        using rest by (simp add: MarkActive_def)
      from Cons.IH [OF this, of k2]
      have "rtranclp lifecycle_step ?t (fst (moveAll nl podUID podNS path ms ?t k2))" .
      moreover have "moveAll nl podUID podNS path (a # ms) t k
                       = moveAll nl podUID podNS path ms ?t k2"
        using None Inr r1 r2 by simp
      ultimately show ?thesis using s by (simp add: converse_rtranclp_into_rtranclp)
    qed
  qed
qed

lemma Run_steps:
  assumes i: "tracker_inv t"
  shows "rtranclp lifecycle_step t (fst (snd (RunPodSandbox nl pod t k)))"
proof -
  let ?uids = "pod_ClaimUIDs pod"
  let ?ms = "fst (ConsumePendingForClaims t ?uids)"
  let ?t1 = "snd (ConsumePendingForClaims t ?uids)"
  have c: "lifecycle_step t ?t1" by (rule ls_ConsumePendingForClaims)
  have ms: "pending t (pm_ClaimUID m) = Some m \<and> pm_ClaimUID m \<in> set ?uids"
    if "m \<in> set ?ms" for m
    using Consume_moves [OF that] i by (auto simp: tracker_inv_def)
  have na: "\<forall>m \<in> set ?ms. active ?t1 (pm_ClaimUID m) = None"
    using ms i by (auto simp: Consume_active tracker_inv_def)
  have np: "\<forall>m \<in> set ?ms. pending ?t1 (pm_ClaimUID m) = None"
    using ms by (auto simp: Consume_pending)
  have r: "rtranclp lifecycle_step t (reAddPending ?ms ?t1)"
    using c reAddPending_steps [OF na] by (rule converse_rtranclp_into_rtranclp)
  have m: "rtranclp lifecycle_step t (fst (moveAll nl podUID podNS path ?ms ?t1 k1))"
    for podUID podNS path k1
    using c moveAll_steps [OF np] by (rule converse_rtranclp_into_rtranclp)
  from Run_tracker [of nl pod t k] c r m show ?thesis
    by (elim disjE exE) auto
qed

text \<open>
  Claim C7, as the specification states it, fails on single method calls. A claim is
  registered and a sandbox-created event drains it: between the drain and \<open>MarkActive\<close>
  the claim is in neither map, so \<open>MarkActive\<close> takes it from unregistered to active, a
  transition the specification does not list. And if the claim is registered again
  between the drain and \<open>MarkActive\<close> (it has no active move then), it ends in both
  maps.
\<close>

theorem tracker_spec_transitions_counterexample:
  "phase_of (AddPending NewRDMANetnsTracker ''claim-1'' ''mlx5_0'') ''claim-1'' = Pending
   \<and> phase_of (snd (ConsumePendingForClaims
         (AddPending NewRDMANetnsTracker ''claim-1'' ''mlx5_0'') [''claim-1''])) ''claim-1''
       = Unregistered
   \<and> phase_of (MarkActive
         (snd (ConsumePendingForClaims
            (AddPending NewRDMANetnsTracker ''claim-1'' ''mlx5_0'') [''claim-1'']))
         ''claim-1'' ''pod-1'' ''mlx5_0'' ''/proc/123/ns/net'') ''claim-1''
       = Active
   \<and> \<not> allowed Unregistered Active
   \<and> active (snd (ConsumePendingForClaims
         (AddPending NewRDMANetnsTracker ''claim-1'' ''mlx5_0'') [''claim-1''])) ''claim-1''
       = None
   \<and> phase_of (MarkActive
         (AddPending
            (snd (ConsumePendingForClaims
               (AddPending NewRDMANetnsTracker ''claim-1'' ''mlx5_0'') [''claim-1'']))
            ''claim-1'' ''mlx5_0'')
         ''claim-1'' ''pod-1'' ''mlx5_0'' ''/proc/123/ns/net'') ''claim-1''
       = PendingAndActive"
  by (simp add: phase_of_def AddPending_def MarkActive_def NewRDMANetnsTracker_def allowed_def)

text \<open>
  Claim C7, amended. In every tracker state reached from the new tracker by single
  method calls, where \<open>AddPending\<close> is called only for a claim with no active move and
  \<open>MarkActive\<close> only for a claim with no pending move, no claim UID has both a pending
  and an active move, and every further call leaves each claim's phase as it is or
  takes it along one of the transitions unregistered to pending, pending to
  unregistered (\<open>RemovePending\<close> or the drain), unregistered to active (\<open>MarkActive\<close>
  after the drain), active to unregistered. A sandbox-created event that runs with no
  other call in between is a sequence of such calls, and from its start to its end it
  takes each claim along the transitions of the specification (pending to active,
  pending to unregistered) or leaves its phase as it is.
\<close>

theorem tracker_method_lifecycle_invariant:
  assumes "reachable t"
  shows "(\<forall>c. \<not> (pending t c \<noteq> None \<and> active t c \<noteq> None))
         \<and> (\<forall>c. phase_of t c \<noteq> PendingAndActive)
         \<and> (\<forall>t' c. lifecycle_step t t' \<longrightarrow>
               phase_of t' c = phase_of t c \<or> allowed_call (phase_of t c) (phase_of t' c))
         \<and> rtranclp lifecycle_step t (fst (snd (RunPodSandbox nl pod t k)))
         \<and> reachable (fst (snd (RunPodSandbox nl pod t k)))
         \<and> (\<forall>c. phase_of (fst (snd (RunPodSandbox nl pod t k))) c = phase_of t c
               \<or> allowed (phase_of t c) (phase_of (fst (snd (RunPodSandbox nl pod t k))) c))"
proof -
  from assms have i: "tracker_inv t" by (rule reachable_inv)
  then have 1: "\<forall>c. \<not> (pending t c \<noteq> None \<and> active t c \<noteq> None)"
    by (auto simp: tracker_inv_def)
  from 1 have 2: "\<forall>c. phase_of t c \<noteq> PendingAndActive"
    by (auto simp: phase_of_def split: option.splits)
  have 3: "\<forall>t' c. lifecycle_step t t' \<longrightarrow>
               phase_of t' c = phase_of t c \<or> allowed_call (phase_of t c) (phase_of t' c)"
    using step_inv_phase [OF _ i] by blast
  have 4: "rtranclp lifecycle_step t (fst (snd (RunPodSandbox nl pod t k)))"
    using i by (rule Run_steps)
  have "reachable t'" if "rtranclp lifecycle_step t t'" for t'
    using that assms by (induction rule: rtranclp_induct) (auto intro: reach_step)
  with 4 have 5: "reachable (fst (snd (RunPodSandbox nl pod t k)))" by blast
  have 6: "\<forall>c. phase_of (fst (snd (RunPodSandbox nl pod t k))) c = phase_of t c
               \<or> allowed (phase_of t c) (phase_of (fst (snd (RunPodSandbox nl pod t k))) c)"
    by (intro allI, rule Run_phase [OF i, THEN conjunct2])
  from 1 2 3 4 5 6 show ?thesis by blast
qed

theorem tracker_method_lifecycle_invariant_witness:
  "reachable (AddPending NewRDMANetnsTracker ''claim-1'' ''mlx5_0'')
   \<and> lifecycle_step (AddPending NewRDMANetnsTracker ''claim-1'' ''mlx5_0'')
        (snd (ConsumePendingForClaims
           (AddPending NewRDMANetnsTracker ''claim-1'' ''mlx5_0'') [''claim-1'']))
   \<and> phase_of (AddPending NewRDMANetnsTracker ''claim-1'' ''mlx5_0'') ''claim-1'' = Pending
   \<and> phase_of (snd (ConsumePendingForClaims
           (AddPending NewRDMANetnsTracker ''claim-1'' ''mlx5_0'') [''claim-1''])) ''claim-1''
       = Unregistered
   \<and> allowed_call Pending Unregistered
   \<and> lifecycle_step
        (snd (ConsumePendingForClaims
           (AddPending NewRDMANetnsTracker ''claim-1'' ''mlx5_0'') [''claim-1'']))
        (MarkActive
           (snd (ConsumePendingForClaims
              (AddPending NewRDMANetnsTracker ''claim-1'' ''mlx5_0'') [''claim-1'']))
           ''claim-1'' ''pod-1'' ''mlx5_0'' ''/proc/123/ns/net'')
   \<and> allowed_call Unregistered Active
   \<and> reachable (MarkActive NewRDMANetnsTracker ''claim-1'' ''pod-1'' ''mlx5_0''
                  ''/proc/123/ns/net'')
   \<and> phase_of (MarkActive NewRDMANetnsTracker ''claim-1'' ''pod-1'' ''mlx5_0''
                  ''/proc/123/ns/net'') ''claim-1'' = Active
   \<and> allowed Pending Active"
proof -
  let ?nl = "fakeNetlink (Inr 7) (\<lambda>n. Inr 1) None :: unit Netlink"
  let ?t0 = "AddPending NewRDMANetnsTracker ''claim-1'' ''mlx5_0''"
  let ?t1 = "snd (ConsumePendingForClaims ?t0 [''claim-1''])"
  let ?t2 = "MarkActive NewRDMANetnsTracker ''claim-1'' ''pod-1'' ''mlx5_0'' ''/proc/123/ns/net''"
  let ?pod = "\<lparr>pod_Uid = ''pod-1'', pod_ClaimUIDs = [''claim-1''],
            pod_Linux = Some [(''network'', ''/proc/123/ns/net'')]\<rparr>"
  have n: "active NewRDMANetnsTracker ''claim-1'' = None"
    by (simp add: NewRDMANetnsTracker_def)
  have r: "reachable ?t0"
    by (rule reach_step [OF reach_new ls_AddPending [OF n]])
  have s: "lifecycle_step ?t0 ?t1" by (rule ls_ConsumePendingForClaims)
  have run: "fst (snd (RunPodSandbox ?nl ?pod ?t0 ())) = ?t2"
    by (simp add: RunPodSandbox_def AddPending_def NewRDMANetnsTracker_def getNetNSPath_def
      fakeNetlink_def MarkActive_def)
  have p0: "phase_of ?t0 ''claim-1'' = Pending"
    by (simp add: phase_of_def AddPending_def NewRDMANetnsTracker_def)
  have p1: "phase_of ?t1 ''claim-1'' = Unregistered"
    by (simp add: phase_of_def AddPending_def NewRDMANetnsTracker_def)
  have p2: "phase_of ?t2 ''claim-1'' = Active"
    by (simp add: phase_of_def MarkActive_def NewRDMANetnsTracker_def)
  note T = tracker_method_lifecycle_invariant [OF r, of ?nl ?pod "()"]
  from T s have "phase_of ?t1 ''claim-1'' = phase_of ?t0 ''claim-1''
        \<or> allowed_call (phase_of ?t0 ''claim-1'') (phase_of ?t1 ''claim-1'')"
    by blast
  with p0 p1 have a: "allowed_call Pending Unregistered" by simp
  let ?t3 = "MarkActive ?t1 ''claim-1'' ''pod-1'' ''mlx5_0'' ''/proc/123/ns/net''"
  have n1: "pending ?t1 ''claim-1'' = None"
    by (simp add: AddPending_def NewRDMANetnsTracker_def)
  have s1: "lifecycle_step ?t1 ?t3" by (rule ls_MarkActive [OF n1])
  have p3: "phase_of ?t3 ''claim-1'' = Active"
    by (simp add: phase_of_def MarkActive_def AddPending_def NewRDMANetnsTracker_def)
  note T1 = tracker_method_lifecycle_invariant [OF reach_step [OF r s], of ?nl ?pod "()"]
  from T1 s1 have "phase_of ?t3 ''claim-1'' = phase_of ?t1 ''claim-1''
        \<or> allowed_call (phase_of ?t1 ''claim-1'') (phase_of ?t3 ''claim-1'')"
    by blast
  with p1 p3 have a1: "allowed_call Unregistered Active" by simp
  from T have r2: "reachable ?t2" unfolding run by blast
  from T have "phase_of ?t2 ''claim-1'' = phase_of ?t0 ''claim-1''
        \<or> allowed (phase_of ?t0 ''claim-1'') (phase_of ?t2 ''claim-1'')"
    unfolding run by blast
  with p0 p2 have b: "allowed Pending Active" by simp
  from r s p0 p1 a s1 a1 r2 p2 b show ?thesis by blast
qed
section \<open>Sandbox event coordinator: a failed move\<close>

text \<open>
  Claim C3, at a sandbox-created event for a pod with two pending claims, where the
  RDMA link of the first device is not found: the event returns no error and the second
  device is moved and marked active (the batch is not aborted), but the first move is
  in neither map afterwards; it is not registered as pending again. When instead the
  namespace handle cannot be opened, both moves are registered as pending again.
\<close>

theorem RunPodSandbox_drops_failed_move:
  "RunPodSandbox
      (fakeNetlink (Inr 7)
         (\<lambda>name. if name = ''mlx5_0'' then Inl (Err ''link not found'') else Inr 1) None)
      \<lparr>pod_Uid = ''pod-1'', pod_ClaimUIDs = [''claim-1'', ''claim-2''],
        pod_Linux = Some [(''network'', ''/proc/123/ns/net'')]\<rparr>
      (AddPending (AddPending NewRDMANetnsTracker ''claim-1'' ''mlx5_0'') ''claim-2'' ''mlx5_1'')
      ()
    = (None,
       \<lparr>pending = Map.empty,
        active = [''claim-2'' \<mapsto> \<lparr>am_IBDev = ''mlx5_1'', am_PodUID = ''pod-1'',
                                  am_NetnsPath = ''/proc/123/ns/net''\<rparr>]\<rparr>,
       ())
   \<and> phase_of (fst (snd (RunPodSandbox
      (fakeNetlink (Inr 7)
         (\<lambda>name. if name = ''mlx5_0'' then Inl (Err ''link not found'') else Inr 1) None)
      \<lparr>pod_Uid = ''pod-1'', pod_ClaimUIDs = [''claim-1'', ''claim-2''],
        pod_Linux = Some [(''network'', ''/proc/123/ns/net'')]\<rparr>
      (AddPending (AddPending NewRDMANetnsTracker ''claim-1'' ''mlx5_0'') ''claim-2'' ''mlx5_1'')
      ()))) ''claim-1'' = Unregistered
   \<and> RunPodSandbox
      (fakeNetlink (Inl (Err ''no such file'')) (\<lambda>name. Inr 1) None)
      \<lparr>pod_Uid = ''pod-1'', pod_ClaimUIDs = [''claim-1'', ''claim-2''],
        pod_Linux = Some [(''network'', ''/proc/123/ns/net'')]\<rparr>
      (AddPending (AddPending NewRDMANetnsTracker ''claim-1'' ''mlx5_0'') ''claim-2'' ''mlx5_1'')
      ()
    = (Some (Wrap ''get pod netns'' (Err ''no such file'')),
       AddPending (AddPending NewRDMANetnsTracker ''claim-1'' ''mlx5_0'') ''claim-2'' ''mlx5_1'',
       ())"
  by (simp add: RunPodSandbox_def AddPending_def NewRDMANetnsTracker_def getNetNSPath_def
      fakeNetlink_def MarkActive_def reAddPending_def phase_of_def fun_upd_twist)


section \<open>Combo handler: properties\<close>

lemma New_simps:
  "driverName (New name reg) = name" "registry (New name reg) = reg"
  "allocations (New name reg) = Map.empty"
  by (simp_all add: New_def)

lemma claimRequest_roceClaim:
  "driverName d = name \<Longrightarrow>
   claimRequest d (roceClaim name uid) =
     \<lparr>rq_ClaimUID = uid, rq_Namespace = ''default'', rq_ClaimName = ''roce-claim'',
      rq_AllocatedDevice = [], rq_Config = roceConfig\<rparr>"
  by (simp add: claimRequest_def parseConfig_def getAllocatedDevice_def roceClaim_def)

lemma parseConfig_roceClaim:
  "driverName d = name \<Longrightarrow> parseConfig d (Some (roceClaim name uid)) = roceConfig"
  by (simp add: parseConfig_def roceClaim_def)


lemma traced_Prepare:
  "Prepare (traced l h) req (s, log) =
     (fst (Prepare h req s), (snd (Prepare h req s), log @ [(l, PrepareCall req)]))"
  by (simp add: traced_def case_prod_beta)

lemma traced_Unprepare:
  "Unprepare (traced l h) req (s, log) =
     (fst (Unprepare h req s), (snd (Unprepare h req s), log @ [(l, UnprepareCall req)]))"
  by (simp add: traced_def case_prod_beta)

lemma traced_Validate:
  "Validate (traced l h) cfg (s, log) =
     (fst (Validate h cfg s), (snd (Validate h cfg s), log @ [(l, ValidateCall cfg)]))"
  by (simp add: traced_def case_prod_beta)

lemma RoCE_Prepare_rdma_fails:
  assumes "dc_Combo (rq_Config req) = Some cfg"
    and "Prepare rdma (rdmaReq req cfg) s = (Inl e, s1)"
  shows "Prepare (NewRoCEHandler (traced ''rdma'' rdma) (traced ''netdev'' net)) req (s, log)
     = (Inl (Wrap ''rdma prepare failed'' e),
        (s1, log @ [(''rdma'', PrepareCall (rdmaReq req cfg))]))"
  using assms
  by (simp add: NewRoCEHandler_def RoCEHandler_Prepare_def traced_Prepare)

lemma RoCE_Prepare_netdev_fails:
  assumes "dc_Combo (rq_Config req) = Some cfg"
    and "Prepare rdma (rdmaReq req cfg) s = (Inr r1, s1)"
    and "Prepare net (netReq req cfg) s1 = (Inl e, s2)"
  shows "Prepare (NewRoCEHandler (traced ''rdma'' rdma) (traced ''netdev'' net)) req (s, log)
     = (Inl (Wrap ''netdev prepare failed'' e),
        (snd (Unprepare rdma (rollbackReq req r1) s2),
         log @ [(''rdma'', PrepareCall (rdmaReq req cfg)),
                (''netdev'', PrepareCall (netReq req cfg)),
                (''rdma'', UnprepareCall (rollbackReq req r1))]))"
  using assms
  by (simp add: NewRoCEHandler_def RoCEHandler_Prepare_def traced_Prepare traced_Unprepare
      case_prod_beta)

lemma RoCE_Prepare_success:
  assumes "dc_Combo (rq_Config req) = Some cfg"
    and "Prepare rdma (rdmaReq req cfg) s = (Inr r1, s1)"
    and "Prepare net (netReq req cfg) s1 = (Inr r2, s2)"
  shows "Prepare (NewRoCEHandler rdma net) req s
     = (Inr \<lparr>pr_PoolName = pr_PoolName r1, pr_DeviceName = pr_DeviceName r1,
              pr_CDIEdits = mergeCDIEdits (pr_CDIEdits r1) (pr_CDIEdits r2),
              pr_Allocation = comboAllocation req r1 r2\<rparr>, s2)"
  using assms
  by (simp add: NewRoCEHandler_def RoCEHandler_Prepare_def)

lemma GetKind_combo: "dc_Type config = DeviceTypeCombo \<Longrightarrow> GetKind config = ''roce''"
  by (simp add: GetKind_def DeviceTypeCombo_def DeviceTypeNetdev_def DeviceTypeRDMA_def)

lemma prepareClaim_combo:
  assumes "Get (registry d) DeviceTypeCombo ''roce'' = Some (NewRoCEHandler rdma net)"
    and "dc_Type (parseConfig d (Some rc)) = DeviceTypeCombo"
    and "dc_Combo (parseConfig d (Some rc)) = Some cfg"
  shows "prepareClaim d rc s = Prepare (NewRoCEHandler rdma net) (claimRequest d rc) s"
proof -
  have "Validate (NewRoCEHandler rdma net) (parseConfig d (Some rc)) s = (None, s)"
    using assms(3) by (simp add: NewRoCEHandler_def RoCEHandler_Validate_def)
  then show ?thesis
    using assms(1,2) by (simp add: prepareClaim_def MustGet_def Let_def GetKind_combo)
qed

lemma prepareOne_failed:
  assumes "allocations d (cl_UID rc) = None"
    and "prepareClaim d rc s = (Inl err, s1)"
  shows "prepareOne rc (results, d, os, s) =
     Inr (results(cl_UID rc \<mapsto> \<lparr>kp_Devices = [], kp_Err = Some err\<rparr>), d, os, s1)"
  using assms by (simp add: prepareOne_def)

text \<open>
  Claim C2. For a combo request, with the two sub-handlers' calls recorded: when the
  RDMA prepare fails, the combo prepare returns that error wrapped and the only call
  made is the RDMA prepare (the netdev handler is not called); when the RDMA prepare
  succeeds and the netdev prepare fails, the calls made are the RDMA prepare, the
  netdev prepare and one RDMA unprepare on the RDMA allocation, and the combo prepare
  returns the netdev error wrapped, with no result; and the driver, preparing such a
  claim through its registry, reports that error for the claim and leaves its
  allocations and the storage as they were.
\<close>

theorem combo_prepare_rollback:
  fixes rdma net :: "'s DeviceHandler"
  assumes cfg: "dc_Combo (rq_Config req) = Some cfg"
  shows
    "(\<forall>e s1. Prepare rdma (rdmaReq req cfg) s = (Inl e, s1) \<longrightarrow>
        Prepare (NewRoCEHandler (traced ''rdma'' rdma) (traced ''netdev'' net)) req (s, log)
          = (Inl (Wrap ''rdma prepare failed'' e),
             (s1, log @ [(''rdma'', PrepareCall (rdmaReq req cfg))])))
     \<and> (\<forall>r1 s1 e s2.
          Prepare rdma (rdmaReq req cfg) s = (Inr r1, s1) \<and>
          Prepare net (netReq req cfg) s1 = (Inl e, s2) \<longrightarrow>
          Prepare (NewRoCEHandler (traced ''rdma'' rdma) (traced ''netdev'' net)) req (s, log)
            = (Inl (Wrap ''netdev prepare failed'' e),
               (snd (Unprepare rdma (rollbackReq req r1) s2),
                log @ [(''rdma'', PrepareCall (rdmaReq req cfg)),
                       (''netdev'', PrepareCall (netReq req cfg)),
                       (''rdma'', UnprepareCall (rollbackReq req r1))]))
          \<and> (\<forall>d rc results os.
                allocations d (cl_UID rc) = None \<and>
                Get (registry d) DeviceTypeCombo ''roce''
                  = Some (NewRoCEHandler (traced ''rdma'' rdma) (traced ''netdev'' net)) \<and>
                dc_Type (parseConfig d (Some rc)) = DeviceTypeCombo \<and>
                claimRequest d rc = req \<longrightarrow>
                prepareOne rc (results, d, os, (s, log)) =
                  Inr (results(cl_UID rc \<mapsto>
                         \<lparr>kp_Devices = [],
                          kp_Err = Some (Wrap ''netdev prepare failed'' e)\<rparr>),
                       d, os,
                       (snd (Unprepare rdma (rollbackReq req r1) s2),
                        log @ [(''rdma'', PrepareCall (rdmaReq req cfg)),
                               (''netdev'', PrepareCall (netReq req cfg)),
                               (''rdma'', UnprepareCall (rollbackReq req r1))]))))"
proof (intro conjI allI impI)
  fix e s1 assume "Prepare rdma (rdmaReq req cfg) s = (Inl e, s1)"
  from RoCE_Prepare_rdma_fails [OF cfg this]
  show "Prepare (NewRoCEHandler (traced ''rdma'' rdma) (traced ''netdev'' net)) req (s, log)
          = (Inl (Wrap ''rdma prepare failed'' e),
             (s1, log @ [(''rdma'', PrepareCall (rdmaReq req cfg))]))" .
next
  fix r1 s1 e s2
  assume a: "Prepare rdma (rdmaReq req cfg) s = (Inr r1, s1) \<and>
          Prepare net (netReq req cfg) s1 = (Inl e, s2)"
  then have a1: "Prepare rdma (rdmaReq req cfg) s = (Inr r1, s1)"
    and a2: "Prepare net (netReq req cfg) s1 = (Inl e, s2)" by simp_all
  from RoCE_Prepare_netdev_fails [OF cfg a1 a2]
  show p: "Prepare (NewRoCEHandler (traced ''rdma'' rdma) (traced ''netdev'' net)) req (s, log)
            = (Inl (Wrap ''netdev prepare failed'' e),
               (snd (Unprepare rdma (rollbackReq req r1) s2),
                log @ [(''rdma'', PrepareCall (rdmaReq req cfg)),
                       (''netdev'', PrepareCall (netReq req cfg)),
                       (''rdma'', UnprepareCall (rollbackReq req r1))]))" .
  fix d :: "('s \<times> (string \<times> call) list) Driver" and rc results os
  assume b: "allocations d (cl_UID rc) = None \<and>
                Get (registry d) DeviceTypeCombo ''roce''
                  = Some (NewRoCEHandler (traced ''rdma'' rdma) (traced ''netdev'' net)) \<and>
                dc_Type (parseConfig d (Some rc)) = DeviceTypeCombo \<and>
                claimRequest d rc = req"
  then have c: "dc_Combo (parseConfig d (Some rc)) = Some cfg"
    using cfg by (auto simp: claimRequest_def)
  have "prepareClaim d rc (s, log) = (Inl (Wrap ''netdev prepare failed'' e),
               (snd (Unprepare rdma (rollbackReq req r1) s2),
                log @ [(''rdma'', PrepareCall (rdmaReq req cfg)),
                       (''netdev'', PrepareCall (netReq req cfg)),
                       (''rdma'', UnprepareCall (rollbackReq req r1))]))"
    using prepareClaim_combo [of d "traced ''rdma'' rdma" "traced ''netdev'' net" rc cfg "(s, log)"]
      b c p by simp
  from prepareOne_failed [OF _ this] b
  show "prepareOne rc (results, d, os, (s, log)) =
                  Inr (results(cl_UID rc \<mapsto>
                         \<lparr>kp_Devices = [],
                          kp_Err = Some (Wrap ''netdev prepare failed'' e)\<rparr>),
                       d, os,
                       (snd (Unprepare rdma (rollbackReq req r1) s2),
                        log @ [(''rdma'', PrepareCall (rdmaReq req cfg)),
                               (''netdev'', PrepareCall (netReq req cfg)),
                               (''rdma'', UnprepareCall (rollbackReq req r1))]))"
    by simp
qed

theorem combo_prepare_rollback_witness:
  "Prepare (NewRoCEHandler
        (traced ''rdma'' (fakeHandler DeviceTypeRDMA [''uverbs'']
           (Inl (Err ''rdma device not found'')) None))
        (traced ''netdev'' (fakeHandler DeviceTypeNetdev [''dummy'']
           (Inr (dummyResult ''aabbccdd-0000-0000-0000-000000000000'')) None)))
     (claimRequest (New ''dra.example.com'' NewHandlerRegistry :: unit Driver)
        (roceClaim ''dra.example.com'' ''aabbccdd-0000-0000-0000-000000000000''))
     ((), [])
   = (Inl (Wrap ''rdma prepare failed'' (Err ''rdma device not found'')),
      ((), [(''rdma'', PrepareCall
               (rdmaReq (claimRequest (New ''dra.example.com'' NewHandlerRegistry :: unit Driver)
                  (roceClaim ''dra.example.com'' ''aabbccdd-0000-0000-0000-000000000000''))
                  \<lparr>cc_RDMA = \<lparr>rc_PreferDevice = ''uverbs0''\<rparr>,
                   cc_Netdev = \<lparr>nc_Kind = ''dummy'', nc_InterfaceName = ''eth1'', nc_MTU = 0,
                                nc_Parent = [], nc_Mode = [], nc_VFIndex = 0,
                                nc_HostDevice = [], nc_Pkey = 0\<rparr>\<rparr>))]))
   \<and> (\<exists>calls.
        prepareOne (roceClaim ''dra.example.com'' ''aabbccdd-0000-0000-0000-000000000000'')
          (Map.empty,
           New ''dra.example.com''
             (registered [NewRoCEHandler
                (traced ''rdma'' (fakeHandler DeviceTypeRDMA [''uverbs'']
                   (Inr (uverbsResult ''aabbccdd-0000-0000-0000-000000000000'')) None))
                (traced ''netdev'' (fakeHandler DeviceTypeNetdev [''dummy'']
                   (Inl (Err ''netdev creation failed'')) None))]),
           emptyOS, ((), []))
        = Inr ([''aabbccdd-0000-0000-0000-000000000000'' \<mapsto>
                  \<lparr>kp_Devices = [],
                   kp_Err = Some (Wrap ''netdev prepare failed'' (Err ''netdev creation failed''))\<rparr>],
               New ''dra.example.com''
                 (registered [NewRoCEHandler
                    (traced ''rdma'' (fakeHandler DeviceTypeRDMA [''uverbs'']
                       (Inr (uverbsResult ''aabbccdd-0000-0000-0000-000000000000'')) None))
                    (traced ''netdev'' (fakeHandler DeviceTypeNetdev [''dummy'']
                       (Inl (Err ''netdev creation failed'')) None))]),
               emptyOS, ((), calls))
        \<and> map fst calls = [''rdma'', ''netdev'', ''rdma''])"
proof -
  let ?uid = "''aabbccdd-0000-0000-0000-000000000000''"
  let ?cfg = "\<lparr>cc_RDMA = \<lparr>rc_PreferDevice = ''uverbs0''\<rparr>,
               cc_Netdev = \<lparr>nc_Kind = ''dummy'', nc_InterfaceName = ''eth1'', nc_MTU = 0,
                            nc_Parent = [], nc_Mode = [], nc_VFIndex = 0,
                            nc_HostDevice = [], nc_Pkey = 0\<rparr>\<rparr>"
  let ?rc = "roceClaim ''dra.example.com'' ?uid"
  let ?req = "claimRequest (New ''dra.example.com'' NewHandlerRegistry :: unit Driver) ?rc"
  let ?rdmaF = "fakeHandler DeviceTypeRDMA [''uverbs''] (Inl (Err ''rdma device not found'')) None
                  :: unit DeviceHandler"
  let ?netOk = "fakeHandler DeviceTypeNetdev [''dummy''] (Inr (dummyResult ?uid)) None
                  :: unit DeviceHandler"
  let ?rdmaOk = "fakeHandler DeviceTypeRDMA [''uverbs''] (Inr (uverbsResult ?uid)) None
                  :: unit DeviceHandler"
  let ?netF = "fakeHandler DeviceTypeNetdev [''dummy''] (Inl (Err ''netdev creation failed'')) None
                  :: unit DeviceHandler"
  let ?h = "NewRoCEHandler (traced ''rdma'' ?rdmaOk) (traced ''netdev'' ?netF)"
  let ?d = "New ''dra.example.com'' (registered [?h])"
  note pc = parseConfig_roceClaim
  have cfg: "dc_Combo (rq_Config ?req) = Some ?cfg"
    by (simp add: claimRequest_roceClaim New_simps roceConfig_def)
  have req: "claimRequest ?d ?rc = ?req"
    by (simp add: claimRequest_roceClaim New_simps)
  have f1: "Prepare ?rdmaF (rdmaReq ?req ?cfg) () = (Inl (Err ''rdma device not found''), ())"
    by (simp add: fakeHandler_def)
  have f2: "Prepare ?rdmaOk (rdmaReq ?req ?cfg) () = (Inr (uverbsResult ?uid), ()) \<and>
            Prepare ?netF (netReq ?req ?cfg) () = (Inl (Err ''netdev creation failed''), ())"
    by (simp add: fakeHandler_def)
  have d1: "allocations ?d (cl_UID ?rc) = None" by (simp add: New_simps)
  have d2: "Get (registry ?d) DeviceTypeCombo ''roce'' = Some ?h"
    by (simp add: New_simps Get_registered last_registered_def declares_def NewRoCEHandler_def)
  have d3: "dc_Type (parseConfig ?d (Some ?rc)) = DeviceTypeCombo"
    by (simp add: pc New_simps roceConfig_def)
  from d1 d2 d3 req
  have drv: "allocations ?d (cl_UID ?rc) = None \<and>
             Get (registry ?d) DeviceTypeCombo ''roce'' = Some ?h \<and>
             dc_Type (parseConfig ?d (Some ?rc)) = DeviceTypeCombo \<and>
             claimRequest ?d ?rc = ?req"
    by blast
  have uid: "cl_UID ?rc = ?uid" by (simp add: roceClaim_def)
  from combo_prepare_rollback [OF cfg, of ?rdmaF "()" ?netOk "[]"] f1
  have A: "Prepare (NewRoCEHandler (traced ''rdma'' ?rdmaF) (traced ''netdev'' ?netOk)) ?req ((), [])
     = (Inl (Wrap ''rdma prepare failed'' (Err ''rdma device not found'')),
        ((), [(''rdma'', PrepareCall (rdmaReq ?req ?cfg))]))"
    by simp
  from combo_prepare_rollback [OF cfg, of ?rdmaOk "()" ?netF "[]"] f2 drv
  have B: "prepareOne ?rc (Map.empty, ?d, emptyOS, ((), [])) =
     Inr ([cl_UID ?rc \<mapsto> \<lparr>kp_Devices = [],
              kp_Err = Some (Wrap ''netdev prepare failed'' (Err ''netdev creation failed''))\<rparr>],
          ?d, emptyOS,
          ((), [(''rdma'', PrepareCall (rdmaReq ?req ?cfg)),
                (''netdev'', PrepareCall (netReq ?req ?cfg)),
                (''rdma'', UnprepareCall (rollbackReq ?req (uverbsResult ?uid)))]))"
    by (simp add: fakeHandler_def)
  show ?thesis
    using A B unfolding uid by simp
qed

text \<open>
  Claim C5. With the two sub-handlers' calls recorded: the combo unprepare calls the
  netdev unprepare and then the RDMA unprepare, whatever either returns, and the error
  it returns holds the wrapped error of every sub-unprepare that failed, none when
  both succeeded.
\<close>

theorem combo_unprepare_best_effort:
  fixes rdma net :: "'s DeviceHandler"
  assumes n: "Unprepare net \<lparr>ur_ClaimUID = ur_ClaimUID req, ur_Allocation = netAlloc req\<rparr> s
                = (netErr, s1)"
    and r: "Unprepare rdma \<lparr>ur_ClaimUID = ur_ClaimUID req, ur_Allocation = rdmaAlloc req\<rparr> s1
                = (rdmaErr, s2)"
  shows
    "Unprepare (NewRoCEHandler (traced ''rdma'' rdma) (traced ''netdev'' net)) req (s, log)
       = ((case (netErr, rdmaErr) of
             (None, None) \<Rightarrow> None
           | (Some a, None) \<Rightarrow> Some (Errs ''roce unprepare errors'' [Wrap ''netdev unprepare'' a])
           | (None, Some b) \<Rightarrow> Some (Errs ''roce unprepare errors'' [Wrap ''rdma unprepare'' b])
           | (Some a, Some b) \<Rightarrow>
               Some (Errs ''roce unprepare errors''
                      [Wrap ''netdev unprepare'' a, Wrap ''rdma unprepare'' b])),
          (s2, log @ [(''netdev'', UnprepareCall
                         \<lparr>ur_ClaimUID = ur_ClaimUID req, ur_Allocation = netAlloc req\<rparr>),
                      (''rdma'', UnprepareCall
                         \<lparr>ur_ClaimUID = ur_ClaimUID req, ur_Allocation = rdmaAlloc req\<rparr>)]))"
  using n r
  by (simp add: NewRoCEHandler_def RoCEHandler_Unprepare_def traced_Unprepare collect_def
      split: option.splits)


theorem combo_unprepare_best_effort_witness:
  "Unprepare (NewRoCEHandler
        (traced ''rdma'' (fakeHandler DeviceTypeRDMA [''uverbs'']
           (Inl (Err ''unused'')) (Some (Err ''rdma cleanup failed''))))
        (traced ''netdev'' (fakeHandler DeviceTypeNetdev [''dummy'']
           (Inl (Err ''unused'')) (Some (Err ''netdev cleanup failed'')))))
     \<lparr>ur_ClaimUID = ''partfail-0000-0000-0000-000000000000'',
      ur_Allocation = \<lparr>ai_Type = DeviceTypeCombo, ai_Kind = ''roce'', ai_ClaimUID = [],
                        ai_DeviceName = [], ai_Metadata = Map.empty\<rparr>\<rparr>
     ((), [])
   = (Some (Errs ''roce unprepare errors''
              [Wrap ''netdev unprepare'' (Err ''netdev cleanup failed''),
               Wrap ''rdma unprepare'' (Err ''rdma cleanup failed'')]),
      ((), [(''netdev'', UnprepareCall
               \<lparr>ur_ClaimUID = ''partfail-0000-0000-0000-000000000000'',
                ur_Allocation = netAlloc
                  \<lparr>ur_ClaimUID = ''partfail-0000-0000-0000-000000000000'',
                   ur_Allocation = \<lparr>ai_Type = DeviceTypeCombo, ai_Kind = ''roce'',
                      ai_ClaimUID = [], ai_DeviceName = [], ai_Metadata = Map.empty\<rparr>\<rparr>\<rparr>),
            (''rdma'', UnprepareCall
               \<lparr>ur_ClaimUID = ''partfail-0000-0000-0000-000000000000'',
                ur_Allocation = rdmaAlloc
                  \<lparr>ur_ClaimUID = ''partfail-0000-0000-0000-000000000000'',
                   ur_Allocation = \<lparr>ai_Type = DeviceTypeCombo, ai_Kind = ''roce'',
                      ai_ClaimUID = [], ai_DeviceName = [], ai_Metadata = Map.empty\<rparr>\<rparr>\<rparr>)]))"
proof -
  let ?rdma = "fakeHandler DeviceTypeRDMA [''uverbs''] (Inl (Err ''unused''))
                 (Some (Err ''rdma cleanup failed'')) :: unit DeviceHandler"
  let ?net = "fakeHandler DeviceTypeNetdev [''dummy''] (Inl (Err ''unused''))
                 (Some (Err ''netdev cleanup failed'')) :: unit DeviceHandler"
  let ?req = "\<lparr>ur_ClaimUID = ''partfail-0000-0000-0000-000000000000'',
      ur_Allocation = \<lparr>ai_Type = DeviceTypeCombo, ai_Kind = ''roce'', ai_ClaimUID = [],
                        ai_DeviceName = [], ai_Metadata = Map.empty\<rparr>\<rparr>"
  have n: "Unprepare ?net \<lparr>ur_ClaimUID = ur_ClaimUID ?req, ur_Allocation = netAlloc ?req\<rparr> ()
             = (Some (Err ''netdev cleanup failed''), ())"
    by (simp add: fakeHandler_def)
  have r: "Unprepare ?rdma \<lparr>ur_ClaimUID = ur_ClaimUID ?req, ur_Allocation = rdmaAlloc ?req\<rparr> ()
             = (Some (Err ''rdma cleanup failed''), ())"
    by (simp add: fakeHandler_def)
  from combo_unprepare_best_effort [OF n r, of "[]"] show ?thesis by simp
qed

text \<open>
  Claim C6, at the scenario of the combo test: both sub-prepares succeed, with RDMA
  device \<open>uverbs0\<close> and interface \<open>dmaabbccdd\<close>. The result's device name is \<open>uverbs0\<close>
  and the combined metadata has \<open>rdma_device\<close> and \<open>net_interface\<close>, but the device name
  of the combined \<open>AllocationInfo\<close> is empty.
\<close>

theorem combo_allocation_device_name_empty:
  "(case Prepare (NewRoCEHandler
            (fakeHandler DeviceTypeRDMA [''uverbs'']
               (Inr (uverbsResult ''aabbccdd-0000-0000-0000-000000000000'')) None)
            (fakeHandler DeviceTypeNetdev [''dummy'']
               (Inr (dummyResult ''aabbccdd-0000-0000-0000-000000000000'')) None))
          (claimRequest (New ''dra.example.com'' NewHandlerRegistry :: unit Driver)
             (roceClaim ''dra.example.com'' ''aabbccdd-0000-0000-0000-000000000000''))
          () of
      (Inr result, _) \<Rightarrow>
        pr_DeviceName result = ''uverbs0''
        \<and> ai_Metadata (pr_Allocation result) ''rdma_device'' = Some ''uverbs0''
        \<and> ai_Metadata (pr_Allocation result) ''net_interface'' = Some ''dmaabbccdd''
        \<and> ai_DeviceName (pr_Allocation result) = []
        \<and> ai_DeviceName (pr_Allocation result) \<noteq> pr_DeviceName result
    | (Inl err, _) \<Rightarrow> False)"
  by (simp add: NewRoCEHandler_def RoCEHandler_Prepare_def fakeHandler_def
      claimRequest_roceClaim New_simps roceConfig_def comboAllocation_def
      uverbsResult_def dummyResult_def)


section \<open>Orchestrator: properties\<close>

lemma restoreAllocations_total:
  "restoreAllocations d os =
     Inr (case filepath_Glob cdiDir (ReplaceAll_slash (driverName d) @ ''-'') ''.alloc.json'' os of
            Inl err \<Rightarrow> d
          | Inr matches \<Rightarrow> fold (restoreOne os) matches d)"
  by (simp add: restoreAllocations_def cdiFilePrefix_def first8_def split: sum.splits)

lemma createCDISpec_ok:
  assumes "8 \<le> length uid" "MkdirAll_fails os = None"
    and "WriteFile_fails os (filepath_Join cdiDir (ReplaceAll_slash (driverName d) @ ''-'' @ take 8 uid @ ''.json'')) = None"
  shows "createCDISpec d uid result os =
     Inr (Inr (driverName d @ ''/'' @ ai_Type (pr_Allocation result) @ ''='' @ pr_DeviceName result),
          snd (os_WriteFile
                 (filepath_Join cdiDir (ReplaceAll_slash (driverName d) @ ''-'' @ take 8 uid @ ''.alloc.json''))
                 (AllocDoc (pr_Allocation result))
                 (os\<lparr>files := AList.update
                    (filepath_Join cdiDir (ReplaceAll_slash (driverName d) @ ''-'' @ take 8 uid @ ''.json''))
                    (SpecDoc \<lparr>sp_Version = cdiVersion,
                       sp_Kind = driverName d @ ''/'' @ ai_Type (pr_Allocation result),
                       sp_Devices = [(pr_DeviceName result, pr_CDIEdits result)]\<rparr>)
                    (files os)\<rparr>)))"
  using assms
  by (simp add: createCDISpec_def cdiFilePrefix_def first8_def os_WriteFile_def saveAllocation_def
      Let_def split: option.splits)

lemma prepareOne_replay:
  "allocations d (cl_UID rc) = Some existing \<Longrightarrow>
   prepareOne rc (results, d, os, s) =
     Inr (results(cl_UID rc \<mapsto> prepareResultFromAlloc existing
            (driverName d @ ''/'' @ ai_Type existing @ ''='' @ ai_DeviceName existing)), d, os, s)"
  by (simp add: prepareOne_def Let_def)

lemma prepareOne_prepared:
  assumes "allocations d (cl_UID rc) = None"
    and "prepareClaim d rc s = (Inr result, s1)"
    and "createCDISpec d (cl_UID rc) result os = Inr (Inr cdiDeviceID, os1)"
  shows "prepareOne rc (results, d, os, s) =
     Inr (results(cl_UID rc \<mapsto>
            \<lparr>kp_Devices = [\<lparr>dv_PoolName = pr_PoolName result,
                             dv_DeviceName = pr_DeviceName result,
                             dv_CDIDeviceIDs = [cdiDeviceID]\<rparr>],
             kp_Err = None\<rparr>),
          d\<lparr>allocations := (allocations d)(cl_UID rc \<mapsto> pr_Allocation result)\<rparr>, os1, s1)"
  using assms by (simp add: prepareOne_def Let_def)

lemma roceDriver_simps:
  "driverName (roceDriver name uid) = name"
  "allocations (roceDriver name uid) = Map.empty"
  "Get (registry (roceDriver name uid)) DeviceTypeCombo ''roce'' =
     Some (NewRoCEHandler
             (traced ''rdma''
                (fakeHandler DeviceTypeRDMA [''uverbs''] (Inr (uverbsResult uid)) None))
             (traced ''netdev''
                (fakeHandler DeviceTypeNetdev [''dummy''] (Inr (dummyResult uid)) None)))"
  by (simp_all add: roceDriver_def New_simps Get_registered last_registered_def declares_def
      NewRoCEHandler_def)

lemma prepareClaim_roceDriver:
  "prepareClaim (roceDriver name uid) (roceClaim name uid) (s, log) =
     (Inr \<lparr>pr_PoolName = ''default'', pr_DeviceName = ''uverbs0'',
           pr_CDIEdits = mergeCDIEdits (pr_CDIEdits (uverbsResult uid)) (pr_CDIEdits (dummyResult uid)),
           pr_Allocation =
             comboAllocation (claimRequest (roceDriver name uid) (roceClaim name uid))
               (uverbsResult uid) (dummyResult uid)\<rparr>,
      (s, log @ [(''rdma'', PrepareCall
                    (rdmaReq (claimRequest (roceDriver name uid) (roceClaim name uid))
                       (the (dc_Combo roceConfig)))),
                 (''netdev'', PrepareCall
                    (netReq (claimRequest (roceDriver name uid) (roceClaim name uid))
                       (the (dc_Combo roceConfig))))]))"
proof -
  have "prepareClaim (roceDriver name uid) (roceClaim name uid) (s, log) =
     Prepare (NewRoCEHandler
             (traced ''rdma''
                (fakeHandler DeviceTypeRDMA [''uverbs''] (Inr (uverbsResult uid)) None))
             (traced ''netdev''
                (fakeHandler DeviceTypeNetdev [''dummy''] (Inr (dummyResult uid)) None)))
       (claimRequest (roceDriver name uid) (roceClaim name uid)) (s, log)"
    by (rule prepareClaim_combo [where cfg = "the (dc_Combo roceConfig)"])
       (simp_all add: roceDriver_simps parseConfig_roceClaim roceConfig_def)
  then show ?thesis
    by (simp add: NewRoCEHandler_def RoCEHandler_Prepare_def traced_Prepare fakeHandler_def
        claimRequest_roceClaim roceDriver_simps roceConfig_def uverbsResult_def)
qed

lemma glob_match_append:
  "CHR ''/'' \<notin> set mid \<Longrightarrow> glob_match pre suf (pre @ mid @ suf)"
  by (simp add: glob_match_def)

text \<open>
  Claim C1, at a claim of the combo kind \<open>roce\<close>. A freshly started driver prepares the
  claim: the result names pool \<open>default\<close>, device \<open>uverbs0\<close> and the injection identifier
  \<open>dra.example.com/combo=uverbs0\<close>, and the artifacts are written. The driver restarts
  (no allocation in memory, same storage) and prepares the same claim again: the
  allocation is rehydrated, no handler is called and the storage is not touched, but
  the result names an empty device and the identifier \<open>dra.example.com/combo=\<close>. The
  replayed result is built from the device name of the stored \<open>AllocationInfo\<close>, which
  the combo handler leaves empty.
\<close>

theorem prepare_replay_differs_for_combo:
  "(case PrepareResourceClaims
           (roceDriver ''dra.example.com'' ''aabbccdd-0000-0000-0000-000000000000'')
           [roceClaim ''dra.example.com'' ''aabbccdd-0000-0000-0000-000000000000'']
           emptyOS ((), []) of
      Inl f \<Rightarrow> False
    | Inr (results1, d1, os1, s1) \<Rightarrow>
        results1 ''aabbccdd-0000-0000-0000-000000000000''
          = Some \<lparr>kp_Devices = [\<lparr>dv_PoolName = ''default'', dv_DeviceName = ''uverbs0'',
                    dv_CDIDeviceIDs = [''dra.example.com/combo=uverbs0'']\<rparr>],
                  kp_Err = None\<rparr>
        \<and> (case PrepareResourceClaims
                   (roceDriver ''dra.example.com'' ''aabbccdd-0000-0000-0000-000000000000'')
                   [roceClaim ''dra.example.com'' ''aabbccdd-0000-0000-0000-000000000000'']
                   os1 s1 of
              Inl f \<Rightarrow> False
            | Inr (results2, d2, os2, s2) \<Rightarrow>
                results2 ''aabbccdd-0000-0000-0000-000000000000''
                  = Some \<lparr>kp_Devices = [\<lparr>dv_PoolName = ''default'', dv_DeviceName = [],
                            dv_CDIDeviceIDs = [''dra.example.com/combo='']\<rparr>],
                          kp_Err = None\<rparr>
                \<and> s2 = s1 \<and> os2 = os1))"
proof -
  let ?n = "''dra.example.com''"
  let ?uid = "''aabbccdd-0000-0000-0000-000000000000''"
  let ?d = "roceDriver ?n ?uid"
  let ?rc = "roceClaim ?n ?uid"
  let ?A = "comboAllocation (claimRequest ?d ?rc) (uverbsResult ?uid) (dummyResult ?uid)"
  let ?E = "mergeCDIEdits (pr_CDIEdits (uverbsResult ?uid)) (pr_CDIEdits (dummyResult ?uid))"
  let ?R = "\<lparr>pr_PoolName = ''default'', pr_DeviceName = ''uverbs0'', pr_CDIEdits = ?E,
             pr_Allocation = ?A\<rparr>"
  let ?log = "[(''rdma'', PrepareCall (rdmaReq (claimRequest ?d ?rc) (the (dc_Combo roceConfig)))),
               (''netdev'', PrepareCall (netReq (claimRequest ?d ?rc) (the (dc_Combo roceConfig))))]"
  let ?p1 = "''/etc/cdi/dra.example.com-aabbccdd.json''"
  let ?p2 = "''/etc/cdi/dra.example.com-aabbccdd.alloc.json''"
  let ?S = "SpecDoc \<lparr>sp_Version = cdiVersion, sp_Kind = ''dra.example.com/combo'',
                     sp_Devices = [(''uverbs0'', ?E)]\<rparr>"
  let ?os1 = "emptyOS\<lparr>files := [(?p1, ?S), (?p2, AllocDoc ?A)]\<rparr>"
  have uid: "cl_UID ?rc = ?uid" by (simp add: roceClaim_def)
  have A: "ai_Type ?A = ''combo''" "ai_DeviceName ?A = []" "ai_ClaimUID ?A = ?uid"
    "ai_Metadata ?A ''poolName'' = None"
    by (simp_all add: comboAllocation_def DeviceTypeCombo_def claimRequest_roceClaim
        roceDriver_simps)
  have restore0: "restoreAllocations ?d emptyOS = Inr ?d"
    by (simp add: restoreAllocations_total filepath_Glob_def emptyOS_def)
  have create: "createCDISpec ?d (cl_UID ?rc) ?R emptyOS
                  = Inr (Inr ''dra.example.com/combo=uverbs0'', ?os1)"
    unfolding uid
    by (subst createCDISpec_ok)
       (simp_all add: emptyOS_def roceDriver_simps A os_WriteFile_def filepath_Join_def cdiDir_def
          ReplaceAll_slash_def)
  have one: "prepareOne ?rc (Map.empty, ?d, emptyOS, ((), []))
      = Inr ([?uid \<mapsto> \<lparr>kp_Devices = [\<lparr>dv_PoolName = ''default'', dv_DeviceName = ''uverbs0'',
                    dv_CDIDeviceIDs = [''dra.example.com/combo=uverbs0'']\<rparr>],
                  kp_Err = None\<rparr>],
             ?d\<lparr>allocations := [?uid \<mapsto> ?A]\<rparr>, ?os1, ((), ?log))"
    using prepareOne_prepared [OF _ prepareClaim_roceDriver [of ?n ?uid "()" "[]"] create,
        of Map.empty]
    by (simp add: roceDriver_simps uid)
  have first: "PrepareResourceClaims ?d [?rc] emptyOS ((), [])
      = Inr ([?uid \<mapsto> \<lparr>kp_Devices = [\<lparr>dv_PoolName = ''default'', dv_DeviceName = ''uverbs0'',
                    dv_CDIDeviceIDs = [''dra.example.com/combo=uverbs0'']\<rparr>],
                  kp_Err = None\<rparr>],
             ?d\<lparr>allocations := [?uid \<mapsto> ?A]\<rparr>, ?os1, ((), ?log))"
    by (simp add: PrepareResourceClaims_def restore0 one)
  have g1: "\<not> glob_match ''/etc/cdi/dra.example.com-'' ''.alloc.json'' ?p1"
    by (simp add: glob_match_def)
  have g2: "glob_match ''/etc/cdi/dra.example.com-'' ''.alloc.json'' ?p2"
    by (simp add: glob_match_def)
  have restore1: "restoreAllocations ?d ?os1 = Inr (?d\<lparr>allocations := [?uid \<mapsto> ?A]\<rparr>)"
    using g1 g2
    by (simp add: restoreAllocations_total filepath_Glob_def emptyOS_def roceDriver_simps
        filepath_Join_def cdiDir_def ReplaceAll_slash_def restoreOne_def os_ReadFile_def
        json_Unmarshal_def A)
  have two: "prepareOne ?rc (Map.empty, ?d\<lparr>allocations := [?uid \<mapsto> ?A]\<rparr>, ?os1, ((), ?log))
      = Inr ([?uid \<mapsto> \<lparr>kp_Devices = [\<lparr>dv_PoolName = ''default'', dv_DeviceName = [],
                    dv_CDIDeviceIDs = [''dra.example.com/combo='']\<rparr>],
                  kp_Err = None\<rparr>],
             ?d\<lparr>allocations := [?uid \<mapsto> ?A]\<rparr>, ?os1, ((), ?log))"
    by (subst prepareOne_replay [where existing = ?A])
       (simp_all add: uid prepareResultFromAlloc_def A roceDriver_simps)
  have second: "PrepareResourceClaims ?d [?rc] ?os1 ((), ?log)
      = Inr ([?uid \<mapsto> \<lparr>kp_Devices = [\<lparr>dv_PoolName = ''default'', dv_DeviceName = [],
                    dv_CDIDeviceIDs = [''dra.example.com/combo='']\<rparr>],
                  kp_Err = None\<rparr>],
             ?d\<lparr>allocations := [?uid \<mapsto> ?A]\<rparr>, ?os1, ((), ?log))"
    by (simp add: PrepareResourceClaims_def restore1 two)
  show ?thesis
    unfolding first by (simp add: second)
qed


lemma deleteCDISpec_ok:
  assumes "8 \<le> length uid"
  shows "deleteCDISpec d uid os =
     Inr (snd (os_Remove
            (filepath_Join cdiDir (ReplaceAll_slash (driverName d) @ ''-'' @ take 8 uid @ ''.alloc.json''))
            (snd (os_Remove
               (filepath_Join cdiDir (ReplaceAll_slash (driverName d) @ ''-'' @ take 8 uid @ ''.json''))
               os))))"
  using assms
  by (simp add: deleteCDISpec_def removeAllocationState_def cdiFilePrefix_def first8_def)

lemma os_Remove_files:
  "map_of (files (snd (os_Remove path os))) p =
     (if p = path \<and> Remove_fails os path = None then None else map_of (files os) p)"
  by (auto simp: os_Remove_def delete_conv split: option.splits)

lemma os_Remove_fails: "Remove_fails (snd (os_Remove path os)) = Remove_fails os"
  by (auto simp: os_Remove_def split: option.splits)

text \<open>
  Claim C4. \<open>UnprepareResourceClaims\<close> rehydrates the allocations, which never panics,
  and then runs one step of the release loop per claim. For one such step, for the
  claim \<open>claim\<close> with UID \<open>uid\<close>, from any state of the batch: If the driver has no allocation for \<open>uid\<close>,
  the step records success for \<open>uid\<close> and changes nothing else. If it has one and no
  handler is registered for its type and kind, or the handler's \<open>Unprepare\<close> fails, the
  step records that error for \<open>uid\<close>, and the allocations and the storage are left as
  they were. If \<open>Unprepare\<close> succeeds (and the UID has the 8 characters that naming the
  artifacts needs), the step records success, removes the in-memory entry and removes
  the two artifacts of the claim from storage, leaving every other file. In each case
  the results change for \<open>uid\<close> only, and the handler state after the step is the one
  \<open>Unprepare\<close> returned.
\<close>

theorem release_per_claim:
  "(\<exists>d0. restoreAllocations d0' os = Inr d0 \<and>
      UnprepareResourceClaims d0' (claim # claims) os s =
        (case unprepareOne claim (Map.empty, d0, os, s) of
           Inl f \<Rightarrow> Inl f
         | Inr st \<Rightarrow> unprepareLoop claims st))
   \<and> (allocations d (no_UID claim) = None \<longrightarrow>
      unprepareOne claim (results, d, os, s) = Inr (results(no_UID claim \<mapsto> None), d, os, s))
   \<and> (\<forall>alloc. allocations d (no_UID claim) = Some alloc \<and>
         Get (registry d) (ai_Type alloc) (ai_Kind alloc) = None \<longrightarrow>
         unprepareOne claim (results, d, os, s) =
           Inr (results(no_UID claim \<mapsto>
                  Some (Err (''no handler for type='' @ ai_Type alloc @ '' kind='' @ ai_Kind alloc
                             @ '' during unprepare''))), d, os, s))
   \<and> (\<forall>alloc h err s1. allocations d (no_UID claim) = Some alloc \<and>
         Get (registry d) (ai_Type alloc) (ai_Kind alloc) = Some h \<and>
         Unprepare h \<lparr>ur_ClaimUID = ai_ClaimUID alloc, ur_Allocation = alloc\<rparr> s = (Some err, s1) \<longrightarrow>
         unprepareOne claim (results, d, os, s) =
           Inr (results(no_UID claim \<mapsto> Some err), d, os, s1))
   \<and> (\<forall>alloc h s1. allocations d (no_UID claim) = Some alloc \<and>
         Get (registry d) (ai_Type alloc) (ai_Kind alloc) = Some h \<and>
         Unprepare h \<lparr>ur_ClaimUID = ai_ClaimUID alloc, ur_Allocation = alloc\<rparr> s = (None, s1) \<and>
         8 \<le> length (no_UID claim) \<longrightarrow>
         (\<exists>os1.
            unprepareOne claim (results, d, os, s) =
              Inr (results(no_UID claim \<mapsto> None),
                   d\<lparr>allocations := (allocations d)(no_UID claim := None)\<rparr>, os1, s1)
            \<and> (\<forall>p. map_of (files os1) p =
                  (if (p = filepath_Join cdiDir (ReplaceAll_slash (driverName d) @ ''-''
                             @ take 8 (no_UID claim) @ ''.json'')
                       \<or> p = filepath_Join cdiDir (ReplaceAll_slash (driverName d) @ ''-''
                             @ take 8 (no_UID claim) @ ''.alloc.json''))
                      \<and> Remove_fails os p = None
                   then None else map_of (files os) p))))"
proof (intro conjI allI impI)
  show "\<exists>d0. restoreAllocations d0' os = Inr d0 \<and>
      UnprepareResourceClaims d0' (claim # claims) os s =
        (case unprepareOne claim (Map.empty, d0, os, s) of
           Inl f \<Rightarrow> Inl f
         | Inr st \<Rightarrow> unprepareLoop claims st)"
    by (simp add: UnprepareResourceClaims_def restoreAllocations_total)
next
  assume "allocations d (no_UID claim) = None"
  then show "unprepareOne claim (results, d, os, s) = Inr (results(no_UID claim \<mapsto> None), d, os, s)"
    by (simp add: unprepareOne_def Let_def)
next
  fix alloc
  assume "allocations d (no_UID claim) = Some alloc \<and>
         Get (registry d) (ai_Type alloc) (ai_Kind alloc) = None"
  then show "unprepareOne claim (results, d, os, s) =
           Inr (results(no_UID claim \<mapsto>
                  Some (Err (''no handler for type='' @ ai_Type alloc @ '' kind='' @ ai_Kind alloc
                             @ '' during unprepare''))), d, os, s)"
    by (simp add: unprepareOne_def Let_def unprepareAllocation_def)
next
  fix alloc h err s1
  assume "allocations d (no_UID claim) = Some alloc \<and>
         Get (registry d) (ai_Type alloc) (ai_Kind alloc) = Some h \<and>
         Unprepare h \<lparr>ur_ClaimUID = ai_ClaimUID alloc, ur_Allocation = alloc\<rparr> s = (Some err, s1)"
  then show "unprepareOne claim (results, d, os, s) =
           Inr (results(no_UID claim \<mapsto> Some err), d, os, s1)"
    by (simp add: unprepareOne_def Let_def unprepareAllocation_def)
next
  fix alloc h s1
  assume a: "allocations d (no_UID claim) = Some alloc \<and>
         Get (registry d) (ai_Type alloc) (ai_Kind alloc) = Some h \<and>
         Unprepare h \<lparr>ur_ClaimUID = ai_ClaimUID alloc, ur_Allocation = alloc\<rparr> s = (None, s1) \<and>
         8 \<le> length (no_UID claim)"
  let ?p1 = "filepath_Join cdiDir (ReplaceAll_slash (driverName d) @ ''-''
                             @ take 8 (no_UID claim) @ ''.json'')"
  let ?p2 = "filepath_Join cdiDir (ReplaceAll_slash (driverName d) @ ''-''
                             @ take 8 (no_UID claim) @ ''.alloc.json'')"
  let ?os1 = "snd (os_Remove ?p2 (snd (os_Remove ?p1 os)))"
  from a have del: "deleteCDISpec d (no_UID claim) os = Inr ?os1"
    by (simp add: deleteCDISpec_ok)
  have step: "unprepareOne claim (results, d, os, s) =
              Inr (results(no_UID claim \<mapsto> None),
                   d\<lparr>allocations := (allocations d)(no_UID claim := None)\<rparr>, ?os1, s1)"
    using a del by (simp add: unprepareOne_def Let_def unprepareAllocation_def)
  have fl: "\<forall>p. map_of (files ?os1) p =
                  (if (p = ?p1 \<or> p = ?p2) \<and> Remove_fails os p = None
                   then None else map_of (files os) p)"
    by (auto simp: os_Remove_files os_Remove_fails)
  from step fl
  show "\<exists>os1.
            unprepareOne claim (results, d, os, s) =
              Inr (results(no_UID claim \<mapsto> None),
                   d\<lparr>allocations := (allocations d)(no_UID claim := None)\<rparr>, os1, s1)
            \<and> (\<forall>p. map_of (files os1) p =
                  (if (p = ?p1 \<or> p = ?p2) \<and> Remove_fails os p = None
                   then None else map_of (files os) p))"
    by blast
qed

theorem release_per_claim_witness:
  "(unprepareOne \<lparr>no_UID = ''unknown0-0000-0000-0000-000000000000'', no_Namespace = ''default'',
                 no_Name = ''c''\<rparr>
     (Map.empty,
      New ''dra.example.com''
        (registered [traced ''dummy'' (fakeHandler DeviceTypeNetdev [''dummy'']
                       (Inl (Err ''unused'')) (Some (Err ''failed to delete dummy interface'')))]),
      emptyOS, ((), []))
   = Inr ([''unknown0-0000-0000-0000-000000000000'' \<mapsto> None],
          New ''dra.example.com''
            (registered [traced ''dummy'' (fakeHandler DeviceTypeNetdev [''dummy'']
                       (Inl (Err ''unused'')) (Some (Err ''failed to delete dummy interface'')))]),
          emptyOS, ((), []))
   \<and> unprepareOne \<lparr>no_UID = ''aabbccdd-0000-0000-0000-000000000000'', no_Namespace = ''default'',
                 no_Name = ''c''\<rparr>
     (Map.empty,
      (New ''dra.example.com''
        (registered [traced ''dummy'' (fakeHandler DeviceTypeNetdev [''dummy'']
                       (Inl (Err ''unused'')) (Some (Err ''failed to delete dummy interface'')))]))
        \<lparr>allocations := [''aabbccdd-0000-0000-0000-000000000000'' \<mapsto>
            pr_Allocation (dummyResult ''aabbccdd-0000-0000-0000-000000000000'')]\<rparr>,
      emptyOS, ((), []))
   = Inr ([''aabbccdd-0000-0000-0000-000000000000'' \<mapsto>
             Some (Err ''failed to delete dummy interface'')],
          (New ''dra.example.com''
            (registered [traced ''dummy'' (fakeHandler DeviceTypeNetdev [''dummy'']
                       (Inl (Err ''unused'')) (Some (Err ''failed to delete dummy interface'')))]))
            \<lparr>allocations := [''aabbccdd-0000-0000-0000-000000000000'' \<mapsto>
                pr_Allocation (dummyResult ''aabbccdd-0000-0000-0000-000000000000'')]\<rparr>,
          emptyOS,
          ((), [(''dummy'', UnprepareCall
                   \<lparr>ur_ClaimUID = ''aabbccdd-0000-0000-0000-000000000000'',
                    ur_Allocation =
                      pr_Allocation (dummyResult ''aabbccdd-0000-0000-0000-000000000000'')\<rparr>)])))
   \<and> (\<exists>os1. unprepareOne \<lparr>no_UID = ''aabbccdd-0000-0000-0000-000000000000'', no_Namespace = ''default'',
                 no_Name = ''c''\<rparr>
     (Map.empty,
      (New ''dra.example.com''
        (registered [traced ''dummy'' (fakeHandler DeviceTypeNetdev [''dummy'']
                       (Inl (Err ''unused'')) None)]))
        \<lparr>allocations := [''aabbccdd-0000-0000-0000-000000000000'' \<mapsto>
            pr_Allocation (dummyResult ''aabbccdd-0000-0000-0000-000000000000'')]\<rparr>,
      emptyOS\<lparr>files := [(''/etc/cdi/dra.example.com-aabbccdd.json'', Malformed),
                         (''/etc/cdi/dra.example.com-aabbccdd.alloc.json'',
                          AllocDoc (pr_Allocation
                            (dummyResult ''aabbccdd-0000-0000-0000-000000000000'')))]\<rparr>,
      ((), []))
   = Inr ([''aabbccdd-0000-0000-0000-000000000000'' \<mapsto> None],
          New ''dra.example.com''
            (registered [traced ''dummy'' (fakeHandler DeviceTypeNetdev [''dummy'']
                       (Inl (Err ''unused'')) None)]),
          os1,
          ((), [(''dummy'', UnprepareCall
                   \<lparr>ur_ClaimUID = ''aabbccdd-0000-0000-0000-000000000000'',
                    ur_Allocation =
                      pr_Allocation (dummyResult ''aabbccdd-0000-0000-0000-000000000000'')\<rparr>)]))
     \<and> map_of (files os1) ''/etc/cdi/dra.example.com-aabbccdd.json'' = None
     \<and> map_of (files os1) ''/etc/cdi/dra.example.com-aabbccdd.alloc.json'' = None)"
proof -
  have fails: "unprepareOne \<lparr>no_UID = ''unknown0-0000-0000-0000-000000000000'', no_Namespace = ''default'',
                 no_Name = ''c''\<rparr>
     (Map.empty,
      New ''dra.example.com''
        (registered [traced ''dummy'' (fakeHandler DeviceTypeNetdev [''dummy'']
                       (Inl (Err ''unused'')) (Some (Err ''failed to delete dummy interface'')))]),
      emptyOS, ((), []))
   = Inr ([''unknown0-0000-0000-0000-000000000000'' \<mapsto> None],
          New ''dra.example.com''
            (registered [traced ''dummy'' (fakeHandler DeviceTypeNetdev [''dummy'']
                       (Inl (Err ''unused'')) (Some (Err ''failed to delete dummy interface'')))]),
          emptyOS, ((), []))
   \<and> unprepareOne \<lparr>no_UID = ''aabbccdd-0000-0000-0000-000000000000'', no_Namespace = ''default'',
                 no_Name = ''c''\<rparr>
     (Map.empty,
      (New ''dra.example.com''
        (registered [traced ''dummy'' (fakeHandler DeviceTypeNetdev [''dummy'']
                       (Inl (Err ''unused'')) (Some (Err ''failed to delete dummy interface'')))]))
        \<lparr>allocations := [''aabbccdd-0000-0000-0000-000000000000'' \<mapsto>
            pr_Allocation (dummyResult ''aabbccdd-0000-0000-0000-000000000000'')]\<rparr>,
      emptyOS, ((), []))
   = Inr ([''aabbccdd-0000-0000-0000-000000000000'' \<mapsto>
             Some (Err ''failed to delete dummy interface'')],
          (New ''dra.example.com''
            (registered [traced ''dummy'' (fakeHandler DeviceTypeNetdev [''dummy'']
                       (Inl (Err ''unused'')) (Some (Err ''failed to delete dummy interface'')))]))
            \<lparr>allocations := [''aabbccdd-0000-0000-0000-000000000000'' \<mapsto>
                pr_Allocation (dummyResult ''aabbccdd-0000-0000-0000-000000000000'')]\<rparr>,
          emptyOS,
          ((), [(''dummy'', UnprepareCall
                   \<lparr>ur_ClaimUID = ''aabbccdd-0000-0000-0000-000000000000'',
                    ur_Allocation =
                      pr_Allocation (dummyResult ''aabbccdd-0000-0000-0000-000000000000'')\<rparr>)]))"
  proof -
    let ?h = "traced ''dummy'' (fakeHandler DeviceTypeNetdev [''dummy'']
                (Inl (Err ''unused'')) (Some (Err ''failed to delete dummy interface'')))
              :: (unit \<times> (string \<times> call) list) DeviceHandler"
    let ?d = "New ''dra.example.com'' (registered [?h])"
    let ?uid = "''aabbccdd-0000-0000-0000-000000000000''"
    let ?alloc = "pr_Allocation (dummyResult ?uid)"
    let ?d1 = "?d\<lparr>allocations := [?uid \<mapsto> ?alloc]\<rparr>"
    let ?c0 = "\<lparr>no_UID = ''unknown0-0000-0000-0000-000000000000'', no_Namespace = ''default'',
                no_Name = ''c''\<rparr>"
    let ?c1 = "\<lparr>no_UID = ?uid, no_Namespace = ''default'', no_Name = ''c''\<rparr>"
    have n: "allocations ?d (no_UID ?c0) = None" by (simp add: New_simps)
    have g: "allocations ?d1 (no_UID ?c1) = Some ?alloc \<and>
             Get (registry ?d1) (ai_Type ?alloc) (ai_Kind ?alloc) = Some ?h \<and>
             Unprepare ?h \<lparr>ur_ClaimUID = ai_ClaimUID ?alloc, ur_Allocation = ?alloc\<rparr> ((), [])
               = (Some (Err ''failed to delete dummy interface''),
                  ((), [(''dummy'', UnprepareCall \<lparr>ur_ClaimUID = ?uid, ur_Allocation = ?alloc\<rparr>)]))"
      by (simp add: New_simps Get_registered last_registered_def declares_def traced_Unprepare
          dummyResult_def)
         (simp add: traced_def fakeHandler_def)
    from release_per_claim [of ?d emptyOS ?c0 "[]" "((), [])" ?d Map.empty] n
    have 1: "unprepareOne ?c0 (Map.empty, ?d, emptyOS, ((), []))
               = Inr ([''unknown0-0000-0000-0000-000000000000'' \<mapsto> None], ?d, emptyOS, ((), []))"
      by simp
    from release_per_claim [of ?d emptyOS ?c1 "[]" "((), [])" ?d1 Map.empty] g
    have 2: "unprepareOne ?c1 (Map.empty, ?d1, emptyOS, ((), []))
               = Inr ([?uid \<mapsto> Some (Err ''failed to delete dummy interface'')], ?d1, emptyOS,
                      ((), [(''dummy'', UnprepareCall \<lparr>ur_ClaimUID = ?uid, ur_Allocation = ?alloc\<rparr>)]))"
      by (metis no_UID_def NamespacedObject.select_convs(1))
    from 1 2 show ?thesis by blast
  qed
  have succeeds: "\<exists>os1. unprepareOne \<lparr>no_UID = ''aabbccdd-0000-0000-0000-000000000000'', no_Namespace = ''default'',
                 no_Name = ''c''\<rparr>
     (Map.empty,
      (New ''dra.example.com''
        (registered [traced ''dummy'' (fakeHandler DeviceTypeNetdev [''dummy'']
                       (Inl (Err ''unused'')) None)]))
        \<lparr>allocations := [''aabbccdd-0000-0000-0000-000000000000'' \<mapsto>
            pr_Allocation (dummyResult ''aabbccdd-0000-0000-0000-000000000000'')]\<rparr>,
      emptyOS\<lparr>files := [(''/etc/cdi/dra.example.com-aabbccdd.json'', Malformed),
                         (''/etc/cdi/dra.example.com-aabbccdd.alloc.json'',
                          AllocDoc (pr_Allocation
                            (dummyResult ''aabbccdd-0000-0000-0000-000000000000'')))]\<rparr>,
      ((), []))
   = Inr ([''aabbccdd-0000-0000-0000-000000000000'' \<mapsto> None],
          New ''dra.example.com''
            (registered [traced ''dummy'' (fakeHandler DeviceTypeNetdev [''dummy'']
                       (Inl (Err ''unused'')) None)]),
          os1,
          ((), [(''dummy'', UnprepareCall
                   \<lparr>ur_ClaimUID = ''aabbccdd-0000-0000-0000-000000000000'',
                    ur_Allocation =
                      pr_Allocation (dummyResult ''aabbccdd-0000-0000-0000-000000000000'')\<rparr>)]))
     \<and> map_of (files os1) ''/etc/cdi/dra.example.com-aabbccdd.json'' = None
     \<and> map_of (files os1) ''/etc/cdi/dra.example.com-aabbccdd.alloc.json'' = None"
  proof -
    let ?h = "traced ''dummy'' (fakeHandler DeviceTypeNetdev [''dummy'']
                (Inl (Err ''unused'')) None)
              :: (unit \<times> (string \<times> call) list) DeviceHandler"
    let ?d = "New ''dra.example.com'' (registered [?h])"
    let ?uid = "''aabbccdd-0000-0000-0000-000000000000''"
    let ?alloc = "pr_Allocation (dummyResult ?uid)"
    let ?d1 = "?d\<lparr>allocations := [?uid \<mapsto> ?alloc]\<rparr>"
    let ?c1 = "\<lparr>no_UID = ?uid, no_Namespace = ''default'', no_Name = ''c''\<rparr>"
    let ?os = "emptyOS\<lparr>files := [(''/etc/cdi/dra.example.com-aabbccdd.json'', Malformed),
                           (''/etc/cdi/dra.example.com-aabbccdd.alloc.json'', AllocDoc ?alloc)]\<rparr>"
    have g: "allocations ?d1 (no_UID ?c1) = Some ?alloc \<and>
             Get (registry ?d1) (ai_Type ?alloc) (ai_Kind ?alloc) = Some ?h \<and>
             Unprepare ?h \<lparr>ur_ClaimUID = ai_ClaimUID ?alloc, ur_Allocation = ?alloc\<rparr> ((), [])
               = (None,
                  ((), [(''dummy'', UnprepareCall \<lparr>ur_ClaimUID = ?uid, ur_Allocation = ?alloc\<rparr>)])) \<and>
             8 \<le> length (no_UID ?c1)"
      by (simp add: New_simps Get_registered last_registered_def declares_def traced_Unprepare
          dummyResult_def)
         (simp add: traced_def fakeHandler_def)
    have d: "?d1\<lparr>allocations := (allocations ?d1)(no_UID ?c1 := None)\<rparr> = ?d"
      by (simp add: New_def)
    have p: "filepath_Join cdiDir (ReplaceAll_slash (driverName ?d1) @ ''-'' @ take 8 (no_UID ?c1) @ ''.json'')
               = ''/etc/cdi/dra.example.com-aabbccdd.json''"
       "filepath_Join cdiDir (ReplaceAll_slash (driverName ?d1) @ ''-'' @ take 8 (no_UID ?c1) @ ''.alloc.json'')
               = ''/etc/cdi/dra.example.com-aabbccdd.alloc.json''"
      by (simp_all add: filepath_Join_def cdiDir_def ReplaceAll_slash_def New_simps)
    have rf: "Remove_fails ?os = (\<lambda>p. None)" by (simp add: emptyOS_def)
    from release_per_claim [of ?d ?os ?c1 "[]" "((), [])" ?d1 Map.empty, THEN conjunct2,
        THEN conjunct2, THEN conjunct2, THEN conjunct2, rule_format, OF g]
    obtain os1 where
      1: "unprepareOne ?c1 (Map.empty, ?d1, ?os, ((), []))
           = Inr ([no_UID ?c1 \<mapsto> None], ?d1\<lparr>allocations := (allocations ?d1)(no_UID ?c1 := None)\<rparr>,
                  os1, ((), [(''dummy'', UnprepareCall \<lparr>ur_ClaimUID = ?uid, ur_Allocation = ?alloc\<rparr>)]))"
      and 2: "\<forall>p. map_of (files os1) p =
                    (if (p = filepath_Join cdiDir (ReplaceAll_slash (driverName ?d1) @ ''-''
                               @ take 8 (no_UID ?c1) @ ''.json'')
                         \<or> p = filepath_Join cdiDir (ReplaceAll_slash (driverName ?d1) @ ''-''
                               @ take 8 (no_UID ?c1) @ ''.alloc.json''))
                        \<and> Remove_fails ?os p = None
                     then None else map_of (files ?os) p)"
      by blast
    have 3: "map_of (files os1) ''/etc/cdi/dra.example.com-aabbccdd.json'' = None"
            "map_of (files os1) ''/etc/cdi/dra.example.com-aabbccdd.alloc.json'' = None"
      using 2 unfolding p rf by simp_all
    from 1 have "unprepareOne ?c1 (Map.empty, ?d1, ?os, ((), []))
           = Inr ([?uid \<mapsto> None], ?d,
                  os1, ((), [(''dummy'', UnprepareCall \<lparr>ur_ClaimUID = ?uid, ur_Allocation = ?alloc\<rparr>)]))"
      unfolding d by simp
    with 3 show ?thesis by blast
  qed
  from fails succeeds show ?thesis by blast
qed

lemma first8_short: "length uid < 8 \<Longrightarrow> first8 uid = Inl SliceOutOfRange"
  by (simp add: first8_def)

lemma first8_long: "8 \<le> length uid \<Longrightarrow> first8 uid = Inr (take 8 uid)"
  by (simp add: first8_def)

lemma prepareOne_total:
  assumes "8 \<le> length (cl_UID rc)"
  shows "\<exists>st. prepareOne rc (results, d, os, s) = Inr st"
proof (cases "allocations d (cl_UID rc)")
  case (Some a)
  then show ?thesis by (simp add: prepareOne_def Let_def)
next
  case None
  obtain r s1 where p: "prepareClaim d rc s = (r, s1)" by (cases "prepareClaim d rc s")
  show ?thesis
  proof (cases r)
    case (Inl e)
    with None p show ?thesis by (simp add: prepareOne_def Let_def)
  next
    case (Inr result)
    have "\<exists>x os1. createCDISpec d (cl_UID rc) result os = Inr (x, os1)"
      using assms
      by (auto simp: createCDISpec_def cdiFilePrefix_def first8_long saveAllocation_def Let_def
          os_WriteFile_def split: option.splits)
    then obtain x os1 where c: "createCDISpec d (cl_UID rc) result os = Inr (x, os1)" by blast
    show ?thesis
      using None p Inr c
      by (cases x) (simp_all add: prepareOne_def Let_def case_prod_beta)
  qed
qed

lemma unprepareOne_total:
  assumes "8 \<le> length (no_UID claim)"
  shows "\<exists>st. unprepareOne claim (results, d, os, s) = Inr st"
  using assms
  by (auto simp: unprepareOne_def Let_def deleteCDISpec_ok split: option.splits prod.splits)

text \<open>
  Claim C10. The claim UID is sliced to its first 8 characters with no length check.
  For a UID shorter than 8 characters, naming the artifacts (\<open>cdiFilePrefix\<close>, and the
  interface names of the handlers), persisting a prepare (\<open>saveAllocation\<close>, and
  \<open>createCDISpec\<close> once the directory exists) and removing the artifacts on release
  (\<open>deleteCDISpec\<close>, \<open>removeAllocationState\<close>) panic; so a prepare batch panics at a
  claim with such a UID whose handler has prepared it, and a release batch panics at
  one whose recorded allocation the handler has unprepared: the call has no per-claim
  results at all. For a UID of at least 8 characters none of these panic, and each step
  of the two batches returns.
\<close>

theorem short_claim_uid_panics:
  "(length uid < 8 \<longrightarrow>
      cdiFilePrefix d uid = Inl SliceOutOfRange
      \<and> IpoibHandler_ifName (req\<lparr>rq_ClaimUID := uid\<rparr>) = Inl SliceOutOfRange
      \<and> DummyHandler_ifName (req\<lparr>rq_ClaimUID := uid\<rparr>) = Inl SliceOutOfRange
      \<and> saveAllocation d uid alloc os = Inl SliceOutOfRange
      \<and> removeAllocationState d uid os = Inl SliceOutOfRange
      \<and> deleteCDISpec d uid os = Inl SliceOutOfRange
      \<and> (MkdirAll_fails os = None \<longrightarrow> createCDISpec d uid result os = Inl SliceOutOfRange)
      \<and> (\<forall>rc s s1 results claims.
            cl_UID rc = uid \<and> allocations d uid = None \<and>
            prepareClaim d rc s = (Inr result, s1) \<and> MkdirAll_fails os = None \<longrightarrow>
            prepareLoop (rc # claims) (results, d, os, s) = Inl SliceOutOfRange)
      \<and> (\<forall>claim s s1 results claims.
            no_UID claim = uid \<and> allocations d uid = Some alloc \<and>
            unprepareAllocation d alloc s = (None, s1) \<longrightarrow>
            unprepareLoop (claim # claims) (results, d, os, s) = Inl SliceOutOfRange))
   \<and> (8 \<le> length uid \<longrightarrow>
      cdiFilePrefix d uid = Inr (ReplaceAll_slash (driverName d) @ ''-'' @ take 8 uid)
      \<and> IpoibHandler_ifName (req\<lparr>rq_ClaimUID := uid\<rparr>) = Inr (''ib'' @ take 8 uid)
      \<and> DummyHandler_ifName (req\<lparr>rq_ClaimUID := uid\<rparr>) = Inr (''dm'' @ take 8 uid)
      \<and> (\<exists>x. saveAllocation d uid alloc os = Inr x)
      \<and> (\<exists>x. removeAllocationState d uid os = Inr x)
      \<and> (\<exists>x. deleteCDISpec d uid os = Inr x)
      \<and> (\<exists>x. createCDISpec d uid result os = Inr x)
      \<and> (\<forall>rc s results. cl_UID rc = uid \<longrightarrow>
            (\<exists>st. prepareOne rc (results, d, os, s) = Inr st))
      \<and> (\<forall>claim s results. no_UID claim = uid \<longrightarrow>
            (\<exists>st. unprepareOne claim (results, d, os, s) = Inr st)))"
proof (intro conjI impI)
  assume short: "length uid < 8"
  show p: "cdiFilePrefix d uid = Inl SliceOutOfRange"
    using short by (simp add: cdiFilePrefix_def first8_short)
  show "IpoibHandler_ifName (req\<lparr>rq_ClaimUID := uid\<rparr>) = Inl SliceOutOfRange"
    using short by (simp add: IpoibHandler_ifName_def first8_short)
  show "DummyHandler_ifName (req\<lparr>rq_ClaimUID := uid\<rparr>) = Inl SliceOutOfRange"
    using short by (simp add: DummyHandler_ifName_def first8_short)
  show "saveAllocation d uid alloc os = Inl SliceOutOfRange"
    by (simp add: saveAllocation_def p)
  show "removeAllocationState d uid os = Inl SliceOutOfRange"
    by (simp add: removeAllocationState_def p)
  show del: "deleteCDISpec d uid os = Inl SliceOutOfRange"
    by (simp add: deleteCDISpec_def p)
  show "createCDISpec d uid result os = Inl SliceOutOfRange" if "MkdirAll_fails os = None"
    using that by (simp add: createCDISpec_def p)
  then show "\<forall>rc s s1 results claims.
            cl_UID rc = uid \<and> allocations d uid = None \<and>
            prepareClaim d rc s = (Inr result, s1) \<and> MkdirAll_fails os = None \<longrightarrow>
            prepareLoop (rc # claims) (results, d, os, s) = Inl SliceOutOfRange"
    by (auto simp: prepareOne_def Let_def)
  show "\<forall>claim s s1 results claims.
            no_UID claim = uid \<and> allocations d uid = Some alloc \<and>
            unprepareAllocation d alloc s = (None, s1) \<longrightarrow>
            unprepareLoop (claim # claims) (results, d, os, s) = Inl SliceOutOfRange"
    using del by (auto simp: unprepareOne_def Let_def)
next
  assume long: "8 \<le> length uid"
  show p: "cdiFilePrefix d uid = Inr (ReplaceAll_slash (driverName d) @ ''-'' @ take 8 uid)"
    using long by (simp add: cdiFilePrefix_def first8_long)
  show "IpoibHandler_ifName (req\<lparr>rq_ClaimUID := uid\<rparr>) = Inr (''ib'' @ take 8 uid)"
    using long by (simp add: IpoibHandler_ifName_def first8_long)
  show "DummyHandler_ifName (req\<lparr>rq_ClaimUID := uid\<rparr>) = Inr (''dm'' @ take 8 uid)"
    using long by (simp add: DummyHandler_ifName_def first8_long)
  show "\<exists>x. saveAllocation d uid alloc os = Inr x"
    by (auto simp: saveAllocation_def p Let_def os_WriteFile_def split: option.splits)
  show "\<exists>x. removeAllocationState d uid os = Inr x"
    by (simp add: removeAllocationState_def p)
  show "\<exists>x. deleteCDISpec d uid os = Inr x"
    using long by (simp add: deleteCDISpec_ok)
  show "\<exists>x. createCDISpec d uid result os = Inr x"
    by (auto simp: createCDISpec_def p saveAllocation_def Let_def os_WriteFile_def
        split: option.splits)
  show "\<forall>rc s results. cl_UID rc = uid \<longrightarrow>
            (\<exists>st. prepareOne rc (results, d, os, s) = Inr st)"
  proof (intro allI impI)
    fix rc :: ResourceClaim and s results
    assume "cl_UID rc = uid"
    with long have "8 \<le> length (cl_UID rc)" by simp
    then show "\<exists>st. prepareOne rc (results, d, os, s) = Inr st"
      by (rule prepareOne_total)
  qed
  show "\<forall>claim s results. no_UID claim = uid \<longrightarrow>
            (\<exists>st. unprepareOne claim (results, d, os, s) = Inr st)"
  proof (intro allI impI)
    fix claim :: NamespacedObject and s results
    assume "no_UID claim = uid"
    with long have "8 \<le> length (no_UID claim)" by simp
    then show "\<exists>st. unprepareOne claim (results, d, os, s) = Inr st"
      by (rule unprepareOne_total)
  qed
qed


theorem short_claim_uid_panics_witness:
  "cdiFilePrefix
     (New ''dra.example.com''
        (registered [fakeHandler DeviceTypeRDMA [''uverbs''] (Inr (uverbsResult ''abc'')) None])
      :: unit Driver) ''abc''
     = Inl SliceOutOfRange
   \<and> prepareLoop
       [\<lparr>cl_UID = ''abc'', cl_Namespace = ''default'', cl_Name = ''rdma-claim'',
         cl_Config = [Some \<lparr>oq_Driver = ''dra.example.com'',
                           oq_Parameters = Inr \<lparr>dc_Type = DeviceTypeRDMA, dc_Netdev = None,
                                                 dc_RDMA = Some \<lparr>rc_PreferDevice = []\<rparr>,
                                                 dc_Combo = None\<rparr>\<rparr>],
         cl_Allocation = None\<rparr>]
       (Map.empty,
        New ''dra.example.com''
          (registered [fakeHandler DeviceTypeRDMA [''uverbs''] (Inr (uverbsResult ''abc'')) None])
          :: unit Driver,
        emptyOS, ())
     = Inl SliceOutOfRange
   \<and> cdiFilePrefix
     (New ''dra.example.com''
        (registered [fakeHandler DeviceTypeRDMA [''uverbs''] (Inr (uverbsResult ''abc'')) None])
      :: unit Driver) ''aabbccdd-0000-0000-0000-000000000000''
     = Inr ''dra.example.com-aabbccdd''"
proof -
  let ?h = "fakeHandler DeviceTypeRDMA [''uverbs''] (Inr (uverbsResult ''abc'')) None
              :: unit DeviceHandler"
  let ?d = "New ''dra.example.com'' (registered [?h])"
  let ?cfg = "\<lparr>dc_Type = DeviceTypeRDMA, dc_Netdev = None,
               dc_RDMA = Some \<lparr>rc_PreferDevice = []\<rparr>, dc_Combo = None\<rparr>"
  let ?rc = "\<lparr>cl_UID = ''abc'', cl_Namespace = ''default'', cl_Name = ''rdma-claim'',
         cl_Config = [Some \<lparr>oq_Driver = ''dra.example.com'', oq_Parameters = Inr ?cfg\<rparr>],
         cl_Allocation = None\<rparr>"
  have cfg: "parseConfig ?d (Some ?rc) = ?cfg"
    by (simp add: parseConfig_def New_simps)
  have kind: "GetKind ?cfg = ''uverbs''"
    by (simp add: GetKind_def DeviceTypeRDMA_def DeviceTypeNetdev_def)
  have get: "Get (registry ?d) DeviceTypeRDMA ''uverbs'' = Some ?h"
    by (simp add: New_simps Get_registered last_registered_def declares_def fakeHandler_def)
  have pc: "prepareClaim ?d ?rc () = (Inr (uverbsResult ''abc''), ())"
    unfolding prepareClaim_def cfg Let_def kind
    by (simp add: MustGet_def get) (simp add: fakeHandler_def)
  have short: "length ''abc'' < 8" by simp
  have long: "8 \<le> length ''aabbccdd-0000-0000-0000-000000000000''" by simp
  have hyp: "cl_UID ?rc = ''abc'' \<and> allocations ?d ''abc'' = None \<and>
             prepareClaim ?d ?rc () = (Inr (uverbsResult ''abc''), ()) \<and>
             MkdirAll_fails emptyOS = None"
    using pc by (simp add: New_simps emptyOS_def)
  note T = short_claim_uid_panics [where d = ?d and os = emptyOS
      and result = "uverbsResult ''abc''"]
  from T [where uid = "''abc''"] short
  have 1: "cdiFilePrefix ?d ''abc'' = Inl SliceOutOfRange" by blast
  from T [where uid = "''abc''"] short hyp
  have 2: "prepareLoop [?rc] (Map.empty, ?d, emptyOS, ()) = Inl SliceOutOfRange" by blast
  from T [where uid = "''aabbccdd-0000-0000-0000-000000000000''"] long
  have "cdiFilePrefix ?d ''aabbccdd-0000-0000-0000-000000000000''
          = Inr (ReplaceAll_slash (driverName ?d) @ ''-''
                 @ take 8 ''aabbccdd-0000-0000-0000-000000000000'')"
    by blast
  then have 3: "cdiFilePrefix ?d ''aabbccdd-0000-0000-0000-000000000000''
                  = Inr ''dra.example.com-aabbccdd''"
    by (simp add: New_simps ReplaceAll_slash_def)
  from 1 2 3 show ?thesis by blast
qed


end
